theory Spec2Isabelle
  imports Main "HOL-Library.Word" "HOL-Library.Multiset"
begin

unbundle bit_operations_syntax

section \<open>Vulkan types and enumerators used by the library\<close>

text \<open>
  Modelled from the spec: the header \<^verbatim>\<open>vulkan.h\<close>, which declares the Vulkan types and
  enumerators the library uses, is not among the sources of the repository; the spec names
  them only in words (``compute-shader-stage'', ``shader-write-bit'', ...). Flag types are
  32-bit words and every enumerator below has the value the Vulkan API fixes for it. The
  general theorems of this theory do not depend on these values.
\<close>

type_synonym VkFlags = "32 word"
type_synonym VkPipelineStageFlags = VkFlags
type_synonym VkAccessFlags = VkFlags
type_synonym VkBool32 = "32 word"
type_synonym VkDeviceSize = "64 word"
type_synonym VkImageLayout = int
type_synonym VkStructureType = int
type_synonym VkBuffer = "64 word"
type_synonym VkImage = "64 word"
type_synonym VkEvent = "64 word"
type_synonym VkCommandBuffer = "64 word"
type_synonym pointer = "64 word"

definition NULL :: pointer where "NULL = 0"
definition VK_TRUE :: VkBool32 where "VK_TRUE = 1"
definition VK_FALSE :: VkBool32 where "VK_FALSE = 0"

definition VK_STRUCTURE_TYPE_BUFFER_MEMORY_BARRIER :: VkStructureType where
  "VK_STRUCTURE_TYPE_BUFFER_MEMORY_BARRIER = 44"
definition VK_STRUCTURE_TYPE_IMAGE_MEMORY_BARRIER :: VkStructureType where
  "VK_STRUCTURE_TYPE_IMAGE_MEMORY_BARRIER = 45"
definition VK_STRUCTURE_TYPE_MEMORY_BARRIER :: VkStructureType where
  "VK_STRUCTURE_TYPE_MEMORY_BARRIER = 46"

definition VK_PIPELINE_STAGE_TOP_OF_PIPE_BIT :: VkPipelineStageFlags where
  "VK_PIPELINE_STAGE_TOP_OF_PIPE_BIT = 0x00000001"
definition VK_PIPELINE_STAGE_DRAW_INDIRECT_BIT :: VkPipelineStageFlags where
  "VK_PIPELINE_STAGE_DRAW_INDIRECT_BIT = 0x00000002"
definition VK_PIPELINE_STAGE_VERTEX_INPUT_BIT :: VkPipelineStageFlags where
  "VK_PIPELINE_STAGE_VERTEX_INPUT_BIT = 0x00000004"
definition VK_PIPELINE_STAGE_VERTEX_SHADER_BIT :: VkPipelineStageFlags where
  "VK_PIPELINE_STAGE_VERTEX_SHADER_BIT = 0x00000008"
definition VK_PIPELINE_STAGE_TESSELLATION_CONTROL_SHADER_BIT :: VkPipelineStageFlags where
  "VK_PIPELINE_STAGE_TESSELLATION_CONTROL_SHADER_BIT = 0x00000010"
definition VK_PIPELINE_STAGE_TESSELLATION_EVALUATION_SHADER_BIT :: VkPipelineStageFlags where
  "VK_PIPELINE_STAGE_TESSELLATION_EVALUATION_SHADER_BIT = 0x00000020"
definition VK_PIPELINE_STAGE_GEOMETRY_SHADER_BIT :: VkPipelineStageFlags where
  "VK_PIPELINE_STAGE_GEOMETRY_SHADER_BIT = 0x00000040"
definition VK_PIPELINE_STAGE_FRAGMENT_SHADER_BIT :: VkPipelineStageFlags where
  "VK_PIPELINE_STAGE_FRAGMENT_SHADER_BIT = 0x00000080"
definition VK_PIPELINE_STAGE_EARLY_FRAGMENT_TESTS_BIT :: VkPipelineStageFlags where
  "VK_PIPELINE_STAGE_EARLY_FRAGMENT_TESTS_BIT = 0x00000100"
definition VK_PIPELINE_STAGE_LATE_FRAGMENT_TESTS_BIT :: VkPipelineStageFlags where
  "VK_PIPELINE_STAGE_LATE_FRAGMENT_TESTS_BIT = 0x00000200"
definition VK_PIPELINE_STAGE_COLOR_ATTACHMENT_OUTPUT_BIT :: VkPipelineStageFlags where
  "VK_PIPELINE_STAGE_COLOR_ATTACHMENT_OUTPUT_BIT = 0x00000400"
definition VK_PIPELINE_STAGE_COMPUTE_SHADER_BIT :: VkPipelineStageFlags where
  "VK_PIPELINE_STAGE_COMPUTE_SHADER_BIT = 0x00000800"
definition VK_PIPELINE_STAGE_TRANSFER_BIT :: VkPipelineStageFlags where
  "VK_PIPELINE_STAGE_TRANSFER_BIT = 0x00001000"
definition VK_PIPELINE_STAGE_BOTTOM_OF_PIPE_BIT :: VkPipelineStageFlags where
  "VK_PIPELINE_STAGE_BOTTOM_OF_PIPE_BIT = 0x00002000"
definition VK_PIPELINE_STAGE_HOST_BIT :: VkPipelineStageFlags where
  "VK_PIPELINE_STAGE_HOST_BIT = 0x00004000"
definition VK_PIPELINE_STAGE_ALL_COMMANDS_BIT :: VkPipelineStageFlags where
  "VK_PIPELINE_STAGE_ALL_COMMANDS_BIT = 0x00010000"
definition VK_PIPELINE_STAGE_COMMAND_PROCESS_BIT_NVX :: VkPipelineStageFlags where
  "VK_PIPELINE_STAGE_COMMAND_PROCESS_BIT_NVX = 0x00020000"

definition VK_ACCESS_INDIRECT_COMMAND_READ_BIT :: VkAccessFlags where
  "VK_ACCESS_INDIRECT_COMMAND_READ_BIT = 0x00000001"
definition VK_ACCESS_INDEX_READ_BIT :: VkAccessFlags where
  "VK_ACCESS_INDEX_READ_BIT = 0x00000002"
definition VK_ACCESS_VERTEX_ATTRIBUTE_READ_BIT :: VkAccessFlags where
  "VK_ACCESS_VERTEX_ATTRIBUTE_READ_BIT = 0x00000004"
definition VK_ACCESS_UNIFORM_READ_BIT :: VkAccessFlags where
  "VK_ACCESS_UNIFORM_READ_BIT = 0x00000008"
definition VK_ACCESS_INPUT_ATTACHMENT_READ_BIT :: VkAccessFlags where
  "VK_ACCESS_INPUT_ATTACHMENT_READ_BIT = 0x00000010"
definition VK_ACCESS_SHADER_READ_BIT :: VkAccessFlags where
  "VK_ACCESS_SHADER_READ_BIT = 0x00000020"
definition VK_ACCESS_SHADER_WRITE_BIT :: VkAccessFlags where
  "VK_ACCESS_SHADER_WRITE_BIT = 0x00000040"
definition VK_ACCESS_COLOR_ATTACHMENT_READ_BIT :: VkAccessFlags where
  "VK_ACCESS_COLOR_ATTACHMENT_READ_BIT = 0x00000080"
definition VK_ACCESS_COLOR_ATTACHMENT_WRITE_BIT :: VkAccessFlags where
  "VK_ACCESS_COLOR_ATTACHMENT_WRITE_BIT = 0x00000100"
definition VK_ACCESS_DEPTH_STENCIL_ATTACHMENT_READ_BIT :: VkAccessFlags where
  "VK_ACCESS_DEPTH_STENCIL_ATTACHMENT_READ_BIT = 0x00000200"
definition VK_ACCESS_DEPTH_STENCIL_ATTACHMENT_WRITE_BIT :: VkAccessFlags where
  "VK_ACCESS_DEPTH_STENCIL_ATTACHMENT_WRITE_BIT = 0x00000400"
definition VK_ACCESS_TRANSFER_READ_BIT :: VkAccessFlags where
  "VK_ACCESS_TRANSFER_READ_BIT = 0x00000800"
definition VK_ACCESS_TRANSFER_WRITE_BIT :: VkAccessFlags where
  "VK_ACCESS_TRANSFER_WRITE_BIT = 0x00001000"
definition VK_ACCESS_HOST_READ_BIT :: VkAccessFlags where
  "VK_ACCESS_HOST_READ_BIT = 0x00002000"
definition VK_ACCESS_HOST_WRITE_BIT :: VkAccessFlags where
  "VK_ACCESS_HOST_WRITE_BIT = 0x00004000"
definition VK_ACCESS_MEMORY_READ_BIT :: VkAccessFlags where
  "VK_ACCESS_MEMORY_READ_BIT = 0x00008000"
definition VK_ACCESS_MEMORY_WRITE_BIT :: VkAccessFlags where
  "VK_ACCESS_MEMORY_WRITE_BIT = 0x00010000"
definition VK_ACCESS_COMMAND_PROCESS_READ_BIT_NVX :: VkAccessFlags where
  "VK_ACCESS_COMMAND_PROCESS_READ_BIT_NVX = 0x00020000"
definition VK_ACCESS_COMMAND_PROCESS_WRITE_BIT_NVX :: VkAccessFlags where
  "VK_ACCESS_COMMAND_PROCESS_WRITE_BIT_NVX = 0x00040000"

text \<open>
  Modelled from the spec: the registry entry of \<^verbatim>\<open>THSVS_ACCESS_GENERAL\<close> is written with
  the names \<^verbatim>\<open>VK_ACCESS_TYPE_MEMORY_READ_BIT\<close> and \<^verbatim>\<open>VK_ACCESS_TYPE_MEMORY_WRITE_BIT\<close>,
  declared nowhere in the sources; the spec gives the entry as
  ``memory-read-bit | memory-write-bit'', so the two names stand for those bits.
\<close>

definition VK_ACCESS_TYPE_MEMORY_READ_BIT :: VkAccessFlags where
  "VK_ACCESS_TYPE_MEMORY_READ_BIT = VK_ACCESS_MEMORY_READ_BIT"
definition VK_ACCESS_TYPE_MEMORY_WRITE_BIT :: VkAccessFlags where
  "VK_ACCESS_TYPE_MEMORY_WRITE_BIT = VK_ACCESS_MEMORY_WRITE_BIT"

definition VK_IMAGE_LAYOUT_UNDEFINED :: VkImageLayout where
  "VK_IMAGE_LAYOUT_UNDEFINED = 0"
definition VK_IMAGE_LAYOUT_GENERAL :: VkImageLayout where
  "VK_IMAGE_LAYOUT_GENERAL = 1"
definition VK_IMAGE_LAYOUT_COLOR_ATTACHMENT_OPTIMAL :: VkImageLayout where
  "VK_IMAGE_LAYOUT_COLOR_ATTACHMENT_OPTIMAL = 2"
definition VK_IMAGE_LAYOUT_DEPTH_STENCIL_ATTACHMENT_OPTIMAL :: VkImageLayout where
  "VK_IMAGE_LAYOUT_DEPTH_STENCIL_ATTACHMENT_OPTIMAL = 3"
definition VK_IMAGE_LAYOUT_DEPTH_STENCIL_READ_ONLY_OPTIMAL :: VkImageLayout where
  "VK_IMAGE_LAYOUT_DEPTH_STENCIL_READ_ONLY_OPTIMAL = 4"
definition VK_IMAGE_LAYOUT_SHADER_READ_ONLY_OPTIMAL :: VkImageLayout where
  "VK_IMAGE_LAYOUT_SHADER_READ_ONLY_OPTIMAL = 5"
definition VK_IMAGE_LAYOUT_TRANSFER_SRC_OPTIMAL :: VkImageLayout where
  "VK_IMAGE_LAYOUT_TRANSFER_SRC_OPTIMAL = 6"
definition VK_IMAGE_LAYOUT_TRANSFER_DST_OPTIMAL :: VkImageLayout where
  "VK_IMAGE_LAYOUT_TRANSFER_DST_OPTIMAL = 7"
definition VK_IMAGE_LAYOUT_PRESENT_SRC_KHR :: VkImageLayout where
  "VK_IMAGE_LAYOUT_PRESENT_SRC_KHR = 1000001002"
definition VK_IMAGE_LAYOUT_SHARED_PRESENT_KHR :: VkImageLayout where
  "VK_IMAGE_LAYOUT_SHARED_PRESENT_KHR = 1000111000"
definition VK_IMAGE_LAYOUT_DEPTH_READ_ONLY_STENCIL_ATTACHMENT_OPTIMAL_KHR :: VkImageLayout where
  "VK_IMAGE_LAYOUT_DEPTH_READ_ONLY_STENCIL_ATTACHMENT_OPTIMAL_KHR = 1000117000"
definition VK_IMAGE_LAYOUT_DEPTH_ATTACHMENT_STENCIL_READ_ONLY_OPTIMAL_KHR :: VkImageLayout where
  "VK_IMAGE_LAYOUT_DEPTH_ATTACHMENT_STENCIL_READ_ONLY_OPTIMAL_KHR = 1000117001"

record VkImageSubresourceRange =
  aspectMask :: VkFlags
  baseMipLevel :: "32 word"
  levelCount :: "32 word"
  baseArrayLayer :: "32 word"
  layerCount :: "32 word"

record VkMemoryBarrier =
  sType :: VkStructureType
  pNext :: pointer
  srcAccessMask :: VkAccessFlags
  dstAccessMask :: VkAccessFlags

record VkBufferMemoryBarrier =
  sType :: VkStructureType
  pNext :: pointer
  srcAccessMask :: VkAccessFlags
  dstAccessMask :: VkAccessFlags
  srcQueueFamilyIndex :: "32 word"
  dstQueueFamilyIndex :: "32 word"
  buffer :: VkBuffer
  offset :: VkDeviceSize
  size_field :: VkDeviceSize

record VkImageMemoryBarrier =
  sType :: VkStructureType
  pNext :: pointer
  srcAccessMask :: VkAccessFlags
  dstAccessMask :: VkAccessFlags
  oldLayout :: VkImageLayout
  newLayout :: VkImageLayout
  srcQueueFamilyIndex :: "32 word"
  dstQueueFamilyIndex :: "32 word"
  image :: VkImage
  subresourceRange :: VkImageSubresourceRange

section \<open>The library's data model\<close>

text \<open>\<^verbatim>\<open>ThsvsAccessType\<close>, in the order of the enumeration's declaration.\<close>

datatype ThsvsAccessType =
    THSVS_ACCESS_NONE
  | THSVS_ACCESS_COMMAND_BUFFER_READ_NVX
  | THSVS_ACCESS_INDIRECT_BUFFER
  | THSVS_ACCESS_INDEX_BUFFER
  | THSVS_ACCESS_VERTEX_BUFFER
  | THSVS_ACCESS_VERTEX_SHADER_READ_UNIFORM_BUFFER
  | THSVS_ACCESS_VERTEX_SHADER_READ_SAMPLED_IMAGE_OR_UNIFORM_TEXEL_BUFFER
  | THSVS_ACCESS_VERTEX_SHADER_READ_OTHER
  | THSVS_ACCESS_TESSELLATION_CONTROL_SHADER_READ_UNIFORM_BUFFER
  | THSVS_ACCESS_TESSELLATION_CONTROL_SHADER_READ_SAMPLED_IMAGE_OR_UNIFORM_TEXEL_BUFFER
  | THSVS_ACCESS_TESSELLATION_CONTROL_SHADER_READ_OTHER
  | THSVS_ACCESS_TESSELLATION_EVALUATION_SHADER_READ_UNIFORM_BUFFER
  | THSVS_ACCESS_TESSELLATION_EVALUATION_SHADER_READ_SAMPLED_IMAGE_OR_UNIFORM_TEXEL_BUFFER
  | THSVS_ACCESS_TESSELLATION_EVALUATION_SHADER_READ_OTHER
  | THSVS_ACCESS_GEOMETRY_SHADER_READ_UNIFORM_BUFFER
  | THSVS_ACCESS_GEOMETRY_SHADER_READ_SAMPLED_IMAGE_OR_UNIFORM_TEXEL_BUFFER
  | THSVS_ACCESS_GEOMETRY_SHADER_READ_OTHER
  | THSVS_ACCESS_FRAGMENT_SHADER_READ_UNIFORM_BUFFER
  | THSVS_ACCESS_FRAGMENT_SHADER_READ_SAMPLED_IMAGE_OR_UNIFORM_TEXEL_BUFFER
  | THSVS_ACCESS_FRAGMENT_SHADER_READ_COLOR_INPUT_ATTACHMENT
  | THSVS_ACCESS_FRAGMENT_SHADER_READ_DEPTH_STENCIL_INPUT_ATTACHMENT
  | THSVS_ACCESS_FRAGMENT_SHADER_READ_OTHER
  | THSVS_ACCESS_COLOR_ATTACHMENT_READ
  | THSVS_ACCESS_DEPTH_STENCIL_ATTACHMENT_READ
  | THSVS_ACCESS_COMPUTE_SHADER_READ_UNIFORM_BUFFER
  | THSVS_ACCESS_COMPUTE_SHADER_READ_SAMPLED_IMAGE_OR_UNIFORM_TEXEL_BUFFER
  | THSVS_ACCESS_COMPUTE_SHADER_READ_OTHER
  | THSVS_ACCESS_ANY_SHADER_READ_UNIFORM_BUFFER
  | THSVS_ACCESS_ANY_SHADER_READ_UNIFORM_BUFFER_OR_VERTEX_BUFFER
  | THSVS_ACCESS_ANY_SHADER_READ_SAMPLED_IMAGE_OR_UNIFORM_TEXEL_BUFFER
  | THSVS_ACCESS_ANY_SHADER_READ_OTHER
  | THSVS_ACCESS_TRANSFER_READ
  | THSVS_ACCESS_HOST_READ
  | THSVS_ACCESS_PRESENT
  | THSVS_ACCESS_COMMAND_BUFFER_WRITE_NVX
  | THSVS_ACCESS_VERTEX_SHADER_WRITE
  | THSVS_ACCESS_TESSELLATION_CONTROL_SHADER_WRITE
  | THSVS_ACCESS_TESSELLATION_EVALUATION_SHADER_WRITE
  | THSVS_ACCESS_GEOMETRY_SHADER_WRITE
  | THSVS_ACCESS_FRAGMENT_SHADER_WRITE
  | THSVS_ACCESS_COLOR_ATTACHMENT_WRITE
  | THSVS_ACCESS_DEPTH_STENCIL_ATTACHMENT_WRITE
  | THSVS_ACCESS_DEPTH_ATTACHMENT_WRITE_STENCIL_READ_ONLY
  | THSVS_ACCESS_STENCIL_ATTACHMENT_WRITE_DEPTH_READ_ONLY
  | THSVS_ACCESS_COMPUTE_SHADER_WRITE
  | THSVS_ACCESS_ANY_SHADER_WRITE
  | THSVS_ACCESS_TRANSFER_WRITE
  | THSVS_ACCESS_HOST_WRITE
  | THSVS_ACCESS_COLOR_ATTACHMENT_READ_WRITE
  | THSVS_ACCESS_GENERAL

text \<open>
  The integer value C gives each enumerator: the position in the declaration, from 0.
  The comparisons \<^verbatim>\<open>access > THSVS_ACCESS_PRESENT\<close> of the source compare these values.
\<close>

primrec access_ordinal :: "ThsvsAccessType \<Rightarrow> nat" where
  "access_ordinal THSVS_ACCESS_NONE = 0"
| "access_ordinal THSVS_ACCESS_COMMAND_BUFFER_READ_NVX = 1"
| "access_ordinal THSVS_ACCESS_INDIRECT_BUFFER = 2"
| "access_ordinal THSVS_ACCESS_INDEX_BUFFER = 3"
| "access_ordinal THSVS_ACCESS_VERTEX_BUFFER = 4"
| "access_ordinal THSVS_ACCESS_VERTEX_SHADER_READ_UNIFORM_BUFFER = 5"
| "access_ordinal THSVS_ACCESS_VERTEX_SHADER_READ_SAMPLED_IMAGE_OR_UNIFORM_TEXEL_BUFFER = 6"
| "access_ordinal THSVS_ACCESS_VERTEX_SHADER_READ_OTHER = 7"
| "access_ordinal THSVS_ACCESS_TESSELLATION_CONTROL_SHADER_READ_UNIFORM_BUFFER = 8"
| "access_ordinal THSVS_ACCESS_TESSELLATION_CONTROL_SHADER_READ_SAMPLED_IMAGE_OR_UNIFORM_TEXEL_BUFFER = 9"
| "access_ordinal THSVS_ACCESS_TESSELLATION_CONTROL_SHADER_READ_OTHER = 10"
| "access_ordinal THSVS_ACCESS_TESSELLATION_EVALUATION_SHADER_READ_UNIFORM_BUFFER = 11"
| "access_ordinal THSVS_ACCESS_TESSELLATION_EVALUATION_SHADER_READ_SAMPLED_IMAGE_OR_UNIFORM_TEXEL_BUFFER = 12"
| "access_ordinal THSVS_ACCESS_TESSELLATION_EVALUATION_SHADER_READ_OTHER = 13"
| "access_ordinal THSVS_ACCESS_GEOMETRY_SHADER_READ_UNIFORM_BUFFER = 14"
| "access_ordinal THSVS_ACCESS_GEOMETRY_SHADER_READ_SAMPLED_IMAGE_OR_UNIFORM_TEXEL_BUFFER = 15"
| "access_ordinal THSVS_ACCESS_GEOMETRY_SHADER_READ_OTHER = 16"
| "access_ordinal THSVS_ACCESS_FRAGMENT_SHADER_READ_UNIFORM_BUFFER = 17"
| "access_ordinal THSVS_ACCESS_FRAGMENT_SHADER_READ_SAMPLED_IMAGE_OR_UNIFORM_TEXEL_BUFFER = 18"
| "access_ordinal THSVS_ACCESS_FRAGMENT_SHADER_READ_COLOR_INPUT_ATTACHMENT = 19"
| "access_ordinal THSVS_ACCESS_FRAGMENT_SHADER_READ_DEPTH_STENCIL_INPUT_ATTACHMENT = 20"
| "access_ordinal THSVS_ACCESS_FRAGMENT_SHADER_READ_OTHER = 21"
| "access_ordinal THSVS_ACCESS_COLOR_ATTACHMENT_READ = 22"
| "access_ordinal THSVS_ACCESS_DEPTH_STENCIL_ATTACHMENT_READ = 23"
| "access_ordinal THSVS_ACCESS_COMPUTE_SHADER_READ_UNIFORM_BUFFER = 24"
| "access_ordinal THSVS_ACCESS_COMPUTE_SHADER_READ_SAMPLED_IMAGE_OR_UNIFORM_TEXEL_BUFFER = 25"
| "access_ordinal THSVS_ACCESS_COMPUTE_SHADER_READ_OTHER = 26"
| "access_ordinal THSVS_ACCESS_ANY_SHADER_READ_UNIFORM_BUFFER = 27"
| "access_ordinal THSVS_ACCESS_ANY_SHADER_READ_UNIFORM_BUFFER_OR_VERTEX_BUFFER = 28"
| "access_ordinal THSVS_ACCESS_ANY_SHADER_READ_SAMPLED_IMAGE_OR_UNIFORM_TEXEL_BUFFER = 29"
| "access_ordinal THSVS_ACCESS_ANY_SHADER_READ_OTHER = 30"
| "access_ordinal THSVS_ACCESS_TRANSFER_READ = 31"
| "access_ordinal THSVS_ACCESS_HOST_READ = 32"
| "access_ordinal THSVS_ACCESS_PRESENT = 33"
| "access_ordinal THSVS_ACCESS_COMMAND_BUFFER_WRITE_NVX = 34"
| "access_ordinal THSVS_ACCESS_VERTEX_SHADER_WRITE = 35"
| "access_ordinal THSVS_ACCESS_TESSELLATION_CONTROL_SHADER_WRITE = 36"
| "access_ordinal THSVS_ACCESS_TESSELLATION_EVALUATION_SHADER_WRITE = 37"
| "access_ordinal THSVS_ACCESS_GEOMETRY_SHADER_WRITE = 38"
| "access_ordinal THSVS_ACCESS_FRAGMENT_SHADER_WRITE = 39"
| "access_ordinal THSVS_ACCESS_COLOR_ATTACHMENT_WRITE = 40"
| "access_ordinal THSVS_ACCESS_DEPTH_STENCIL_ATTACHMENT_WRITE = 41"
| "access_ordinal THSVS_ACCESS_DEPTH_ATTACHMENT_WRITE_STENCIL_READ_ONLY = 42"
| "access_ordinal THSVS_ACCESS_STENCIL_ATTACHMENT_WRITE_DEPTH_READ_ONLY = 43"
| "access_ordinal THSVS_ACCESS_COMPUTE_SHADER_WRITE = 44"
| "access_ordinal THSVS_ACCESS_ANY_SHADER_WRITE = 45"
| "access_ordinal THSVS_ACCESS_TRANSFER_WRITE = 46"
| "access_ordinal THSVS_ACCESS_HOST_WRITE = 47"
| "access_ordinal THSVS_ACCESS_COLOR_ATTACHMENT_READ_WRITE = 48"
| "access_ordinal THSVS_ACCESS_GENERAL = 49"

definition THSVS_NUM_ACCESS_TYPES :: nat where
  "THSVS_NUM_ACCESS_TYPES = 50"

datatype ThsvsImageLayout =
    THSVS_IMAGE_LAYOUT_OPTIMAL
  | THSVS_IMAGE_LAYOUT_GENERAL
  | THSVS_IMAGE_LAYOUT_GENERAL_AND_PRESENTATION

text \<open>
  The barrier descriptions. A pair of a count and a pointer to that many access types is
  one list: \<^verbatim>\<open>prevAccessCount\<close> is the length of \<open>pPrevAccesses\<close>, \<^verbatim>\<open>nextAccessCount\<close> the
  length of \<open>pNextAccesses\<close>. The loops of the source visit the entries from index 0 up
  to the count, in this order.
\<close>

record ThsvsGlobalBarrier =
  pPrevAccesses :: "ThsvsAccessType list"
  pNextAccesses :: "ThsvsAccessType list"

record ThsvsBufferBarrier =
  pPrevAccesses :: "ThsvsAccessType list"
  pNextAccesses :: "ThsvsAccessType list"
  srcQueueFamilyIndex :: "32 word"
  dstQueueFamilyIndex :: "32 word"
  buffer :: VkBuffer
  offset :: VkDeviceSize
  size_field :: VkDeviceSize

record ThsvsImageBarrier =
  pPrevAccesses :: "ThsvsAccessType list"
  pNextAccesses :: "ThsvsAccessType list"
  prevLayout :: ThsvsImageLayout
  nextLayout :: ThsvsImageLayout
  discardContents :: VkBool32
  srcQueueFamilyIndex :: "32 word"
  dstQueueFamilyIndex :: "32 word"
  image :: VkImage
  subresourceRange :: VkImageSubresourceRange

record ThsvsVkAccessInfo =
  stageMask :: VkPipelineStageFlags
  accessMask :: VkAccessFlags
  imageLayout :: VkImageLayout

section \<open>The access-type registry\<close>

text \<open>
  \<^verbatim>\<open>ThsvsAccessMap\<close>: one entry per access type, in the order of the table in the source.
  The source reads it by the enumerator's value, \<^verbatim>\<open>ThsvsAccessMap[access]\<close>.
\<close>

definition ThsvsAccessMap :: "ThsvsVkAccessInfo list" where
  "ThsvsAccessMap = [
    \<comment> \<open>THSVS_ACCESS_NONE\<close>
    \<lparr>stageMask = 0,
     accessMask = 0,
     imageLayout = VK_IMAGE_LAYOUT_UNDEFINED\<rparr>,
    \<comment> \<open>THSVS_ACCESS_COMMAND_BUFFER_READ_NVX\<close>
    \<lparr>stageMask = VK_PIPELINE_STAGE_COMMAND_PROCESS_BIT_NVX,
     accessMask = VK_ACCESS_COMMAND_PROCESS_READ_BIT_NVX,
     imageLayout = VK_IMAGE_LAYOUT_UNDEFINED\<rparr>,
    \<comment> \<open>THSVS_ACCESS_INDIRECT_BUFFER\<close>
    \<lparr>stageMask = VK_PIPELINE_STAGE_DRAW_INDIRECT_BIT,
     accessMask = VK_ACCESS_INDIRECT_COMMAND_READ_BIT,
     imageLayout = VK_IMAGE_LAYOUT_UNDEFINED\<rparr>,
    \<comment> \<open>THSVS_ACCESS_INDEX_BUFFER\<close>
    \<lparr>stageMask = VK_PIPELINE_STAGE_VERTEX_INPUT_BIT,
     accessMask = VK_ACCESS_INDEX_READ_BIT,
     imageLayout = VK_IMAGE_LAYOUT_UNDEFINED\<rparr>,
    \<comment> \<open>THSVS_ACCESS_VERTEX_BUFFER\<close>
    \<lparr>stageMask = VK_PIPELINE_STAGE_VERTEX_INPUT_BIT,
     accessMask = VK_ACCESS_VERTEX_ATTRIBUTE_READ_BIT,
     imageLayout = VK_IMAGE_LAYOUT_UNDEFINED\<rparr>,
    \<comment> \<open>THSVS_ACCESS_VERTEX_SHADER_READ_UNIFORM_BUFFER\<close>
    \<lparr>stageMask = VK_PIPELINE_STAGE_VERTEX_SHADER_BIT,
     accessMask = VK_ACCESS_UNIFORM_READ_BIT,
     imageLayout = VK_IMAGE_LAYOUT_UNDEFINED\<rparr>,
    \<comment> \<open>THSVS_ACCESS_VERTEX_SHADER_READ_SAMPLED_IMAGE\<close>
    \<lparr>stageMask = VK_PIPELINE_STAGE_VERTEX_SHADER_BIT,
     accessMask = VK_ACCESS_SHADER_READ_BIT,
     imageLayout = VK_IMAGE_LAYOUT_SHADER_READ_ONLY_OPTIMAL\<rparr>,
    \<comment> \<open>THSVS_ACCESS_VERTEX_SHADER_READ_OTHER\<close>
    \<lparr>stageMask = VK_PIPELINE_STAGE_VERTEX_SHADER_BIT,
     accessMask = VK_ACCESS_SHADER_READ_BIT,
     imageLayout = VK_IMAGE_LAYOUT_GENERAL\<rparr>,
    \<comment> \<open>THSVS_ACCESS_TESSELLATION_CONTROL_SHADER_READ_UNIFORM_BUFFER\<close>
    \<lparr>stageMask = VK_PIPELINE_STAGE_TESSELLATION_CONTROL_SHADER_BIT,
     accessMask = VK_ACCESS_UNIFORM_READ_BIT,
     imageLayout = VK_IMAGE_LAYOUT_UNDEFINED\<rparr>,
    \<comment> \<open>THSVS_ACCESS_TESSELLATION_CONTROL_SHADER_READ_SAMPLED_IMAGE\<close>
    \<lparr>stageMask = VK_PIPELINE_STAGE_TESSELLATION_CONTROL_SHADER_BIT,
     accessMask = VK_ACCESS_SHADER_READ_BIT,
     imageLayout = VK_IMAGE_LAYOUT_SHADER_READ_ONLY_OPTIMAL\<rparr>,
    \<comment> \<open>THSVS_ACCESS_TESSELLATION_CONTROL_SHADER_READ_OTHER\<close>
    \<lparr>stageMask = VK_PIPELINE_STAGE_TESSELLATION_CONTROL_SHADER_BIT,
     accessMask = VK_ACCESS_SHADER_READ_BIT,
     imageLayout = VK_IMAGE_LAYOUT_GENERAL\<rparr>,
    \<comment> \<open>THSVS_ACCESS_TESSELLATION_EVALUATION_SHADER_READ_UNIFORM_BUFFER\<close>
    \<lparr>stageMask = VK_PIPELINE_STAGE_TESSELLATION_EVALUATION_SHADER_BIT,
     accessMask = VK_ACCESS_UNIFORM_READ_BIT,
     imageLayout = VK_IMAGE_LAYOUT_UNDEFINED\<rparr>,
    \<comment> \<open>THSVS_ACCESS_TESSELLATION_EVALUATION_SHADER_READ_SAMPLED_IMAGE\<close>
    \<lparr>stageMask = VK_PIPELINE_STAGE_TESSELLATION_EVALUATION_SHADER_BIT,
     accessMask = VK_ACCESS_SHADER_READ_BIT,
     imageLayout = VK_IMAGE_LAYOUT_SHADER_READ_ONLY_OPTIMAL\<rparr>,
    \<comment> \<open>THSVS_ACCESS_TESSELLATION_EVALUATION_SHADER_READ_OTHER\<close>
    \<lparr>stageMask = VK_PIPELINE_STAGE_TESSELLATION_EVALUATION_SHADER_BIT,
     accessMask = VK_ACCESS_SHADER_READ_BIT,
     imageLayout = VK_IMAGE_LAYOUT_GENERAL\<rparr>,
    \<comment> \<open>THSVS_ACCESS_GEOMETRY_SHADER_READ_UNIFORM_BUFFER\<close>
    \<lparr>stageMask = VK_PIPELINE_STAGE_GEOMETRY_SHADER_BIT,
     accessMask = VK_ACCESS_UNIFORM_READ_BIT,
     imageLayout = VK_IMAGE_LAYOUT_UNDEFINED\<rparr>,
    \<comment> \<open>THSVS_ACCESS_GEOMETRY_SHADER_READ_SAMPLED_IMAGE\<close>
    \<lparr>stageMask = VK_PIPELINE_STAGE_GEOMETRY_SHADER_BIT,
     accessMask = VK_ACCESS_SHADER_READ_BIT,
     imageLayout = VK_IMAGE_LAYOUT_SHADER_READ_ONLY_OPTIMAL\<rparr>,
    \<comment> \<open>THSVS_ACCESS_GEOMETRY_SHADER_READ_OTHER\<close>
    \<lparr>stageMask = VK_PIPELINE_STAGE_GEOMETRY_SHADER_BIT,
     accessMask = VK_ACCESS_SHADER_READ_BIT,
     imageLayout = VK_IMAGE_LAYOUT_GENERAL\<rparr>,
    \<comment> \<open>THSVS_ACCESS_FRAGMENT_SHADER_READ_UNIFORM_BUFFER\<close>
    \<lparr>stageMask = VK_PIPELINE_STAGE_FRAGMENT_SHADER_BIT,
     accessMask = VK_ACCESS_UNIFORM_READ_BIT,
     imageLayout = VK_IMAGE_LAYOUT_UNDEFINED\<rparr>,
    \<comment> \<open>THSVS_ACCESS_FRAGMENT_SHADER_READ_SAMPLED_IMAGE\<close>
    \<lparr>stageMask = VK_PIPELINE_STAGE_FRAGMENT_SHADER_BIT,
     accessMask = VK_ACCESS_SHADER_READ_BIT,
     imageLayout = VK_IMAGE_LAYOUT_SHADER_READ_ONLY_OPTIMAL\<rparr>,
    \<comment> \<open>THSVS_ACCESS_FRAGMENT_SHADER_READ_COLOR_INPUT_ATTACHMENT\<close>
    \<lparr>stageMask = VK_PIPELINE_STAGE_FRAGMENT_SHADER_BIT,
     accessMask = VK_ACCESS_INPUT_ATTACHMENT_READ_BIT,
     imageLayout = VK_IMAGE_LAYOUT_SHADER_READ_ONLY_OPTIMAL\<rparr>,
    \<comment> \<open>THSVS_ACCESS_FRAGMENT_SHADER_READ_DEPTH_STENCIL_INPUT_ATTACHMENT\<close>
    \<lparr>stageMask = VK_PIPELINE_STAGE_FRAGMENT_SHADER_BIT,
     accessMask = VK_ACCESS_DEPTH_STENCIL_ATTACHMENT_READ_BIT,
     imageLayout = VK_IMAGE_LAYOUT_DEPTH_STENCIL_READ_ONLY_OPTIMAL\<rparr>,
    \<comment> \<open>THSVS_ACCESS_FRAGMENT_SHADER_READ_OTHER\<close>
    \<lparr>stageMask = VK_PIPELINE_STAGE_FRAGMENT_SHADER_BIT,
     accessMask = VK_ACCESS_SHADER_READ_BIT,
     imageLayout = VK_IMAGE_LAYOUT_GENERAL\<rparr>,
    \<comment> \<open>THSVS_ACCESS_COLOR_ATTACHMENT_READ\<close>
    \<lparr>stageMask = VK_PIPELINE_STAGE_COLOR_ATTACHMENT_OUTPUT_BIT,
     accessMask = VK_ACCESS_COLOR_ATTACHMENT_READ_BIT,
     imageLayout = VK_IMAGE_LAYOUT_COLOR_ATTACHMENT_OPTIMAL\<rparr>,
    \<comment> \<open>THSVS_ACCESS_DEPTH_STENCIL_ATTACHMENT_READ\<close>
    \<lparr>stageMask = VK_PIPELINE_STAGE_EARLY_FRAGMENT_TESTS_BIT OR VK_PIPELINE_STAGE_LATE_FRAGMENT_TESTS_BIT,
     accessMask = VK_ACCESS_DEPTH_STENCIL_ATTACHMENT_READ_BIT,
     imageLayout = VK_IMAGE_LAYOUT_DEPTH_STENCIL_READ_ONLY_OPTIMAL\<rparr>,
    \<comment> \<open>THSVS_ACCESS_COMPUTE_SHADER_READ_UNIFORM_BUFFER\<close>
    \<lparr>stageMask = VK_PIPELINE_STAGE_COMPUTE_SHADER_BIT,
     accessMask = VK_ACCESS_UNIFORM_READ_BIT,
     imageLayout = VK_IMAGE_LAYOUT_UNDEFINED\<rparr>,
    \<comment> \<open>THSVS_ACCESS_COMPUTE_SHADER_READ_SAMPLED_IMAGE\<close>
    \<lparr>stageMask = VK_PIPELINE_STAGE_COMPUTE_SHADER_BIT,
     accessMask = VK_ACCESS_SHADER_READ_BIT,
     imageLayout = VK_IMAGE_LAYOUT_SHADER_READ_ONLY_OPTIMAL\<rparr>,
    \<comment> \<open>THSVS_ACCESS_COMPUTE_SHADER_READ_OTHER\<close>
    \<lparr>stageMask = VK_PIPELINE_STAGE_COMPUTE_SHADER_BIT,
     accessMask = VK_ACCESS_SHADER_READ_BIT,
     imageLayout = VK_IMAGE_LAYOUT_GENERAL\<rparr>,
    \<comment> \<open>THSVS_ACCESS_ANY_SHADER_READ_UNIFORM_BUFFER\<close>
    \<lparr>stageMask = VK_PIPELINE_STAGE_ALL_COMMANDS_BIT,
     accessMask = VK_ACCESS_UNIFORM_READ_BIT,
     imageLayout = VK_IMAGE_LAYOUT_UNDEFINED\<rparr>,
    \<comment> \<open>THSVS_ACCESS_ANY_SHADER_READ_UNIFORM_BUFFER_OR_VERTEX_BUFFER\<close>
    \<lparr>stageMask = VK_PIPELINE_STAGE_ALL_COMMANDS_BIT,
     accessMask = VK_ACCESS_UNIFORM_READ_BIT OR VK_ACCESS_VERTEX_ATTRIBUTE_READ_BIT,
     imageLayout = VK_IMAGE_LAYOUT_UNDEFINED\<rparr>,
    \<comment> \<open>THSVS_ACCESS_ANY_SHADER_READ_SAMPLED_IMAGE\<close>
    \<lparr>stageMask = VK_PIPELINE_STAGE_ALL_COMMANDS_BIT,
     accessMask = VK_ACCESS_SHADER_READ_BIT,
     imageLayout = VK_IMAGE_LAYOUT_SHADER_READ_ONLY_OPTIMAL\<rparr>,
    \<comment> \<open>THSVS_ACCESS_ANY_SHADER_READ_OTHER\<close>
    \<lparr>stageMask = VK_PIPELINE_STAGE_ALL_COMMANDS_BIT,
     accessMask = VK_ACCESS_SHADER_READ_BIT,
     imageLayout = VK_IMAGE_LAYOUT_GENERAL\<rparr>,
    \<comment> \<open>THSVS_ACCESS_TRANSFER_READ\<close>
    \<lparr>stageMask = VK_PIPELINE_STAGE_TRANSFER_BIT,
     accessMask = VK_ACCESS_TRANSFER_READ_BIT,
     imageLayout = VK_IMAGE_LAYOUT_TRANSFER_SRC_OPTIMAL\<rparr>,
    \<comment> \<open>THSVS_ACCESS_HOST_READ\<close>
    \<lparr>stageMask = VK_PIPELINE_STAGE_HOST_BIT,
     accessMask = VK_ACCESS_HOST_READ_BIT,
     imageLayout = VK_IMAGE_LAYOUT_GENERAL\<rparr>,
    \<comment> \<open>THSVS_ACCESS_PRESENT\<close>
    \<lparr>stageMask = VK_PIPELINE_STAGE_TOP_OF_PIPE_BIT,
     accessMask = 0,
     imageLayout = VK_IMAGE_LAYOUT_PRESENT_SRC_KHR\<rparr>,
    \<comment> \<open>THSVS_ACCESS_COMMAND_BUFFER_WRITE_NVX\<close>
    \<lparr>stageMask = VK_PIPELINE_STAGE_COMMAND_PROCESS_BIT_NVX,
     accessMask = VK_ACCESS_COMMAND_PROCESS_WRITE_BIT_NVX,
     imageLayout = VK_IMAGE_LAYOUT_UNDEFINED\<rparr>,
    \<comment> \<open>THSVS_ACCESS_VERTEX_SHADER_WRITE\<close>
    \<lparr>stageMask = VK_PIPELINE_STAGE_VERTEX_SHADER_BIT,
     accessMask = VK_ACCESS_SHADER_WRITE_BIT,
     imageLayout = VK_IMAGE_LAYOUT_GENERAL\<rparr>,
    \<comment> \<open>THSVS_ACCESS_TESSELLATION_CONTROL_SHADER_WRITE\<close>
    \<lparr>stageMask = VK_PIPELINE_STAGE_TESSELLATION_CONTROL_SHADER_BIT,
     accessMask = VK_ACCESS_SHADER_WRITE_BIT,
     imageLayout = VK_IMAGE_LAYOUT_GENERAL\<rparr>,
    \<comment> \<open>THSVS_ACCESS_TESSELLATION_EVALUATION_SHADER_WRITE\<close>
    \<lparr>stageMask = VK_PIPELINE_STAGE_TESSELLATION_EVALUATION_SHADER_BIT,
     accessMask = VK_ACCESS_SHADER_WRITE_BIT,
     imageLayout = VK_IMAGE_LAYOUT_GENERAL\<rparr>,
    \<comment> \<open>THSVS_ACCESS_GEOMETRY_SHADER_WRITE\<close>
    \<lparr>stageMask = VK_PIPELINE_STAGE_GEOMETRY_SHADER_BIT,
     accessMask = VK_ACCESS_SHADER_WRITE_BIT,
     imageLayout = VK_IMAGE_LAYOUT_GENERAL\<rparr>,
    \<comment> \<open>THSVS_ACCESS_FRAGMENT_SHADER_WRITE\<close>
    \<lparr>stageMask = VK_PIPELINE_STAGE_FRAGMENT_SHADER_BIT,
     accessMask = VK_ACCESS_SHADER_WRITE_BIT,
     imageLayout = VK_IMAGE_LAYOUT_GENERAL\<rparr>,
    \<comment> \<open>THSVS_ACCESS_COLOR_ATTACHMENT_WRITE\<close>
    \<lparr>stageMask = VK_PIPELINE_STAGE_COLOR_ATTACHMENT_OUTPUT_BIT,
     accessMask = VK_ACCESS_COLOR_ATTACHMENT_WRITE_BIT,
     imageLayout = VK_IMAGE_LAYOUT_COLOR_ATTACHMENT_OPTIMAL\<rparr>,
    \<comment> \<open>THSVS_ACCESS_DEPTH_STENCIL_ATTACHMENT_WRITE\<close>
    \<lparr>stageMask = VK_PIPELINE_STAGE_EARLY_FRAGMENT_TESTS_BIT OR VK_PIPELINE_STAGE_LATE_FRAGMENT_TESTS_BIT,
     accessMask = VK_ACCESS_DEPTH_STENCIL_ATTACHMENT_WRITE_BIT,
     imageLayout = VK_IMAGE_LAYOUT_DEPTH_STENCIL_ATTACHMENT_OPTIMAL\<rparr>,
    \<comment> \<open>THSVS_ACCESS_DEPTH_ATTACHMENT_WRITE_STENCIL_READ_ONLY\<close>
    \<lparr>stageMask = VK_PIPELINE_STAGE_EARLY_FRAGMENT_TESTS_BIT OR VK_PIPELINE_STAGE_LATE_FRAGMENT_TESTS_BIT,
     accessMask = VK_ACCESS_DEPTH_STENCIL_ATTACHMENT_WRITE_BIT OR VK_ACCESS_DEPTH_STENCIL_ATTACHMENT_READ_BIT,
     imageLayout = VK_IMAGE_LAYOUT_DEPTH_ATTACHMENT_STENCIL_READ_ONLY_OPTIMAL_KHR\<rparr>,
    \<comment> \<open>THSVS_ACCESS_STENCIL_ATTACHMENT_WRITE_DEPTH_READ_ONLY\<close>
    \<lparr>stageMask = VK_PIPELINE_STAGE_EARLY_FRAGMENT_TESTS_BIT OR VK_PIPELINE_STAGE_LATE_FRAGMENT_TESTS_BIT,
     accessMask = VK_ACCESS_DEPTH_STENCIL_ATTACHMENT_WRITE_BIT OR VK_ACCESS_DEPTH_STENCIL_ATTACHMENT_READ_BIT,
     imageLayout = VK_IMAGE_LAYOUT_DEPTH_READ_ONLY_STENCIL_ATTACHMENT_OPTIMAL_KHR\<rparr>,
    \<comment> \<open>THSVS_ACCESS_COMPUTE_SHADER_WRITE\<close>
    \<lparr>stageMask = VK_PIPELINE_STAGE_COMPUTE_SHADER_BIT,
     accessMask = VK_ACCESS_SHADER_WRITE_BIT,
     imageLayout = VK_IMAGE_LAYOUT_GENERAL\<rparr>,
    \<comment> \<open>THSVS_ACCESS_ANY_SHADER_WRITE\<close>
    \<lparr>stageMask = VK_PIPELINE_STAGE_ALL_COMMANDS_BIT,
     accessMask = VK_ACCESS_SHADER_WRITE_BIT,
     imageLayout = VK_IMAGE_LAYOUT_GENERAL\<rparr>,
    \<comment> \<open>THSVS_ACCESS_TRANSFER_WRITE\<close>
    \<lparr>stageMask = VK_PIPELINE_STAGE_TRANSFER_BIT,
     accessMask = VK_ACCESS_TRANSFER_WRITE_BIT,
     imageLayout = VK_IMAGE_LAYOUT_TRANSFER_DST_OPTIMAL\<rparr>,
    \<comment> \<open>THSVS_ACCESS_HOST_WRITE\<close>
    \<lparr>stageMask = VK_PIPELINE_STAGE_HOST_BIT,
     accessMask = VK_ACCESS_HOST_WRITE_BIT,
     imageLayout = VK_IMAGE_LAYOUT_GENERAL\<rparr>,
    \<comment> \<open>THSVS_ACCESS_COLOR_ATTACHMENT_READ_WRITE\<close>
    \<lparr>stageMask = VK_PIPELINE_STAGE_COLOR_ATTACHMENT_OUTPUT_BIT,
     accessMask = VK_ACCESS_COLOR_ATTACHMENT_READ_BIT OR VK_ACCESS_COLOR_ATTACHMENT_WRITE_BIT,
     imageLayout = VK_IMAGE_LAYOUT_COLOR_ATTACHMENT_OPTIMAL\<rparr>,
    \<comment> \<open>THSVS_ACCESS_GENERAL\<close>
    \<lparr>stageMask = VK_PIPELINE_STAGE_ALL_COMMANDS_BIT,
     accessMask = VK_ACCESS_TYPE_MEMORY_READ_BIT OR VK_ACCESS_TYPE_MEMORY_WRITE_BIT,
     imageLayout = VK_IMAGE_LAYOUT_GENERAL\<rparr>]"

text \<open>\<^verbatim>\<open>&ThsvsAccessMap[access]\<close>: the registry entry of an access type.\<close>

definition access_info :: "ThsvsAccessType \<Rightarrow> ThsvsVkAccessInfo" where
  "access_info access = ThsvsAccessMap ! access_ordinal access"

section \<open>The mapping functions\<close>

text \<open>
  Each mapping function writes through three pointers: \<^verbatim>\<open>pSrcStages\<close>, \<^verbatim>\<open>pDstStages\<close> and
  \<^verbatim>\<open>pVkBarrier\<close>. The model takes the values the three objects hold on entry and returns
  the values they hold on return; the three pointers are taken to point to three distinct
  objects, as they do in every call of the repository. The stage masks are only ever
  ORed into, and of the barrier structure only the fields the source assigns change.
\<close>

record 'b outputs =
  pSrcStages :: VkPipelineStageFlags
  pDstStages :: VkPipelineStageFlags
  pVkBarrier :: 'b

subsection \<open>\<^verbatim>\<open>thsvsGetVulkanMemoryBarrier\<close>\<close>

text \<open>The body of the loop over \<^verbatim>\<open>pPrevAccesses\<close>, without the optional assertion.\<close>

definition memory_prev_body ::
  "ThsvsAccessType \<Rightarrow> VkPipelineStageFlags \<Rightarrow> VkMemoryBarrier \<Rightarrow> VkPipelineStageFlags \<times> VkMemoryBarrier" where
  "memory_prev_body prevAccess srcStages vkBarrier =
     (let pPrevAccessInfo = access_info prevAccess;
          srcStages' = srcStages OR stageMask pPrevAccessInfo;
          vkBarrier' =
            (if access_ordinal prevAccess > access_ordinal THSVS_ACCESS_PRESENT
             then vkBarrier\<lparr>VkMemoryBarrier.srcAccessMask :=
                    VkMemoryBarrier.srcAccessMask vkBarrier OR accessMask pPrevAccessInfo\<rparr>
             else vkBarrier)
      in (srcStages', vkBarrier'))"

text \<open>The body of the loop over \<^verbatim>\<open>pNextAccesses\<close>, without the optional assertion.\<close>

definition memory_next_body ::
  "ThsvsAccessType \<Rightarrow> VkPipelineStageFlags \<Rightarrow> VkMemoryBarrier \<Rightarrow> VkPipelineStageFlags \<times> VkMemoryBarrier" where
  "memory_next_body nextAccess dstStages vkBarrier =
     (let pNextAccessInfo = access_info nextAccess;
          dstStages' = dstStages OR stageMask pNextAccessInfo;
          vkBarrier' = vkBarrier\<lparr>VkMemoryBarrier.dstAccessMask :=
                         VkMemoryBarrier.dstAccessMask vkBarrier OR accessMask pNextAccessInfo\<rparr>
      in (dstStages', vkBarrier'))"

fun memory_prev_loop ::
  "ThsvsAccessType list \<Rightarrow> VkPipelineStageFlags \<Rightarrow> VkMemoryBarrier \<Rightarrow> VkPipelineStageFlags \<times> VkMemoryBarrier" where
  "memory_prev_loop [] srcStages vkBarrier = (srcStages, vkBarrier)"
| "memory_prev_loop (prevAccess # rest) srcStages vkBarrier =
     (case memory_prev_body prevAccess srcStages vkBarrier of
        (srcStages', vkBarrier') \<Rightarrow> memory_prev_loop rest srcStages' vkBarrier')"

fun memory_next_loop ::
  "ThsvsAccessType list \<Rightarrow> VkPipelineStageFlags \<Rightarrow> VkMemoryBarrier \<Rightarrow> VkPipelineStageFlags \<times> VkMemoryBarrier" where
  "memory_next_loop [] dstStages vkBarrier = (dstStages, vkBarrier)"
| "memory_next_loop (nextAccess # rest) dstStages vkBarrier =
     (case memory_next_body nextAccess dstStages vkBarrier of
        (dstStages', vkBarrier') \<Rightarrow> memory_next_loop rest dstStages' vkBarrier')"

definition thsvsGetVulkanMemoryBarrier ::
  "ThsvsGlobalBarrier \<Rightarrow> VkPipelineStageFlags \<Rightarrow> VkPipelineStageFlags \<Rightarrow> VkMemoryBarrier
     \<Rightarrow> VkMemoryBarrier outputs" where
  "thsvsGetVulkanMemoryBarrier thBarrier srcStages dstStages vkBarrier =
     (let vkBarrier0 = vkBarrier\<lparr>
            VkMemoryBarrier.sType := VK_STRUCTURE_TYPE_MEMORY_BARRIER,
            VkMemoryBarrier.pNext := NULL,
            VkMemoryBarrier.srcAccessMask := 0,
            VkMemoryBarrier.dstAccessMask := 0\<rparr>
      in case memory_prev_loop (ThsvsGlobalBarrier.pPrevAccesses thBarrier) srcStages vkBarrier0 of
        (srcStages', vkBarrier1) \<Rightarrow>
          (case memory_next_loop (ThsvsGlobalBarrier.pNextAccesses thBarrier) dstStages vkBarrier1 of
            (dstStages', vkBarrier2) \<Rightarrow>
              \<lparr>pSrcStages = srcStages', pDstStages = dstStages', pVkBarrier = vkBarrier2\<rparr>))"

subsection \<open>\<^verbatim>\<open>thsvsGetVulkanBufferMemoryBarrier\<close>\<close>

definition buffer_prev_body ::
  "ThsvsAccessType \<Rightarrow> VkPipelineStageFlags \<Rightarrow> VkBufferMemoryBarrier
     \<Rightarrow> VkPipelineStageFlags \<times> VkBufferMemoryBarrier" where
  "buffer_prev_body prevAccess srcStages vkBarrier =
     (let pPrevAccessInfo = access_info prevAccess;
          srcStages' = srcStages OR stageMask pPrevAccessInfo;
          vkBarrier' =
            (if access_ordinal prevAccess > access_ordinal THSVS_ACCESS_PRESENT
             then vkBarrier\<lparr>VkBufferMemoryBarrier.srcAccessMask :=
                    VkBufferMemoryBarrier.srcAccessMask vkBarrier OR accessMask pPrevAccessInfo\<rparr>
             else vkBarrier)
      in (srcStages', vkBarrier'))"

definition buffer_next_body ::
  "ThsvsAccessType \<Rightarrow> VkPipelineStageFlags \<Rightarrow> VkBufferMemoryBarrier
     \<Rightarrow> VkPipelineStageFlags \<times> VkBufferMemoryBarrier" where
  "buffer_next_body nextAccess dstStages vkBarrier =
     (let pNextAccessInfo = access_info nextAccess;
          dstStages' = dstStages OR stageMask pNextAccessInfo;
          vkBarrier' = vkBarrier\<lparr>VkBufferMemoryBarrier.dstAccessMask :=
                         VkBufferMemoryBarrier.dstAccessMask vkBarrier OR accessMask pNextAccessInfo\<rparr>
      in (dstStages', vkBarrier'))"

fun buffer_prev_loop ::
  "ThsvsAccessType list \<Rightarrow> VkPipelineStageFlags \<Rightarrow> VkBufferMemoryBarrier
     \<Rightarrow> VkPipelineStageFlags \<times> VkBufferMemoryBarrier" where
  "buffer_prev_loop [] srcStages vkBarrier = (srcStages, vkBarrier)"
| "buffer_prev_loop (prevAccess # rest) srcStages vkBarrier =
     (case buffer_prev_body prevAccess srcStages vkBarrier of
        (srcStages', vkBarrier') \<Rightarrow> buffer_prev_loop rest srcStages' vkBarrier')"

fun buffer_next_loop ::
  "ThsvsAccessType list \<Rightarrow> VkPipelineStageFlags \<Rightarrow> VkBufferMemoryBarrier
     \<Rightarrow> VkPipelineStageFlags \<times> VkBufferMemoryBarrier" where
  "buffer_next_loop [] dstStages vkBarrier = (dstStages, vkBarrier)"
| "buffer_next_loop (nextAccess # rest) dstStages vkBarrier =
     (case buffer_next_body nextAccess dstStages vkBarrier of
        (dstStages', vkBarrier') \<Rightarrow> buffer_next_loop rest dstStages' vkBarrier')"

definition thsvsGetVulkanBufferMemoryBarrier ::
  "ThsvsBufferBarrier \<Rightarrow> VkPipelineStageFlags \<Rightarrow> VkPipelineStageFlags \<Rightarrow> VkBufferMemoryBarrier
     \<Rightarrow> VkBufferMemoryBarrier outputs" where
  "thsvsGetVulkanBufferMemoryBarrier thBarrier srcStages dstStages vkBarrier =
     (let vkBarrier0 = vkBarrier\<lparr>
            VkBufferMemoryBarrier.sType := VK_STRUCTURE_TYPE_BUFFER_MEMORY_BARRIER,
            VkBufferMemoryBarrier.pNext := NULL,
            VkBufferMemoryBarrier.srcAccessMask := 0,
            VkBufferMemoryBarrier.dstAccessMask := 0,
            VkBufferMemoryBarrier.srcQueueFamilyIndex := ThsvsBufferBarrier.srcQueueFamilyIndex thBarrier,
            VkBufferMemoryBarrier.dstQueueFamilyIndex := ThsvsBufferBarrier.dstQueueFamilyIndex thBarrier,
            VkBufferMemoryBarrier.buffer := ThsvsBufferBarrier.buffer thBarrier,
            VkBufferMemoryBarrier.offset := ThsvsBufferBarrier.offset thBarrier,
            VkBufferMemoryBarrier.size_field := ThsvsBufferBarrier.size_field thBarrier\<rparr>
      in case buffer_prev_loop (ThsvsBufferBarrier.pPrevAccesses thBarrier) srcStages vkBarrier0 of
        (srcStages', vkBarrier1) \<Rightarrow>
          (case buffer_next_loop (ThsvsBufferBarrier.pNextAccesses thBarrier) dstStages vkBarrier1 of
            (dstStages', vkBarrier2) \<Rightarrow>
              \<lparr>pSrcStages = srcStages', pDstStages = dstStages', pVkBarrier = vkBarrier2\<rparr>))"

subsection \<open>\<^verbatim>\<open>thsvsGetVulkanImageMemoryBarrier\<close>\<close>

definition image_prev_body ::
  "ThsvsImageBarrier \<Rightarrow> ThsvsAccessType \<Rightarrow> VkPipelineStageFlags \<Rightarrow> VkImageMemoryBarrier
     \<Rightarrow> VkPipelineStageFlags \<times> VkImageMemoryBarrier" where
  "image_prev_body thBarrier prevAccess srcStages vkBarrier =
     (let pPrevAccessInfo = access_info prevAccess;
          srcStages' = srcStages OR stageMask pPrevAccessInfo;
          vkBarrier1 =
            (if access_ordinal prevAccess > access_ordinal THSVS_ACCESS_PRESENT
             then vkBarrier\<lparr>VkImageMemoryBarrier.srcAccessMask :=
                    VkImageMemoryBarrier.srcAccessMask vkBarrier OR accessMask pPrevAccessInfo\<rparr>
             else vkBarrier);
          vkBarrier2 =
            (if discardContents thBarrier = VK_TRUE
             then vkBarrier1\<lparr>oldLayout := VK_IMAGE_LAYOUT_UNDEFINED\<rparr>
             else
               (let layout =
                  (case prevLayout thBarrier of
                     THSVS_IMAGE_LAYOUT_GENERAL \<Rightarrow>
                       if prevAccess = THSVS_ACCESS_PRESENT
                       then VK_IMAGE_LAYOUT_PRESENT_SRC_KHR
                       else VK_IMAGE_LAYOUT_GENERAL
                   | THSVS_IMAGE_LAYOUT_OPTIMAL \<Rightarrow> imageLayout pPrevAccessInfo
                   | THSVS_IMAGE_LAYOUT_GENERAL_AND_PRESENTATION \<Rightarrow> VK_IMAGE_LAYOUT_SHARED_PRESENT_KHR)
                in vkBarrier1\<lparr>oldLayout := layout\<rparr>))
      in (srcStages', vkBarrier2))"

definition image_next_body ::
  "ThsvsImageBarrier \<Rightarrow> ThsvsAccessType \<Rightarrow> VkPipelineStageFlags \<Rightarrow> VkImageMemoryBarrier
     \<Rightarrow> VkPipelineStageFlags \<times> VkImageMemoryBarrier" where
  "image_next_body thBarrier nextAccess dstStages vkBarrier =
     (let pNextAccessInfo = access_info nextAccess;
          dstStages' = dstStages OR stageMask pNextAccessInfo;
          vkBarrier1 = vkBarrier\<lparr>VkImageMemoryBarrier.dstAccessMask :=
                         VkImageMemoryBarrier.dstAccessMask vkBarrier OR accessMask pNextAccessInfo\<rparr>;
          layout =
            (case nextLayout thBarrier of
               THSVS_IMAGE_LAYOUT_GENERAL \<Rightarrow>
                 if nextAccess = THSVS_ACCESS_PRESENT
                 then VK_IMAGE_LAYOUT_PRESENT_SRC_KHR
                 else VK_IMAGE_LAYOUT_GENERAL
             | THSVS_IMAGE_LAYOUT_OPTIMAL \<Rightarrow> imageLayout pNextAccessInfo
             | THSVS_IMAGE_LAYOUT_GENERAL_AND_PRESENTATION \<Rightarrow> VK_IMAGE_LAYOUT_SHARED_PRESENT_KHR)
      in (dstStages', vkBarrier1\<lparr>newLayout := layout\<rparr>))"

fun image_prev_loop ::
  "ThsvsImageBarrier \<Rightarrow> ThsvsAccessType list \<Rightarrow> VkPipelineStageFlags \<Rightarrow> VkImageMemoryBarrier
     \<Rightarrow> VkPipelineStageFlags \<times> VkImageMemoryBarrier" where
  "image_prev_loop thBarrier [] srcStages vkBarrier = (srcStages, vkBarrier)"
| "image_prev_loop thBarrier (prevAccess # rest) srcStages vkBarrier =
     (case image_prev_body thBarrier prevAccess srcStages vkBarrier of
        (srcStages', vkBarrier') \<Rightarrow> image_prev_loop thBarrier rest srcStages' vkBarrier')"

fun image_next_loop ::
  "ThsvsImageBarrier \<Rightarrow> ThsvsAccessType list \<Rightarrow> VkPipelineStageFlags \<Rightarrow> VkImageMemoryBarrier
     \<Rightarrow> VkPipelineStageFlags \<times> VkImageMemoryBarrier" where
  "image_next_loop thBarrier [] dstStages vkBarrier = (dstStages, vkBarrier)"
| "image_next_loop thBarrier (nextAccess # rest) dstStages vkBarrier =
     (case image_next_body thBarrier nextAccess dstStages vkBarrier of
        (dstStages', vkBarrier') \<Rightarrow> image_next_loop thBarrier rest dstStages' vkBarrier')"

definition thsvsGetVulkanImageMemoryBarrier ::
  "ThsvsImageBarrier \<Rightarrow> VkPipelineStageFlags \<Rightarrow> VkPipelineStageFlags \<Rightarrow> VkImageMemoryBarrier
     \<Rightarrow> VkImageMemoryBarrier outputs" where
  "thsvsGetVulkanImageMemoryBarrier thBarrier srcStages dstStages vkBarrier =
     (let vkBarrier0 = vkBarrier\<lparr>
            VkImageMemoryBarrier.sType := VK_STRUCTURE_TYPE_IMAGE_MEMORY_BARRIER,
            VkImageMemoryBarrier.pNext := NULL,
            VkImageMemoryBarrier.srcAccessMask := 0,
            VkImageMemoryBarrier.dstAccessMask := 0,
            VkImageMemoryBarrier.srcQueueFamilyIndex := ThsvsImageBarrier.srcQueueFamilyIndex thBarrier,
            VkImageMemoryBarrier.dstQueueFamilyIndex := ThsvsImageBarrier.dstQueueFamilyIndex thBarrier,
            VkImageMemoryBarrier.image := ThsvsImageBarrier.image thBarrier,
            VkImageMemoryBarrier.subresourceRange := ThsvsImageBarrier.subresourceRange thBarrier\<rparr>
      in case image_prev_loop thBarrier (ThsvsImageBarrier.pPrevAccesses thBarrier) srcStages vkBarrier0 of
        (srcStages', vkBarrier1) \<Rightarrow>
          (case image_next_loop thBarrier (ThsvsImageBarrier.pNextAccesses thBarrier) dstStages vkBarrier1 of
            (dstStages', vkBarrier2) \<Rightarrow>
              \<lparr>pSrcStages = srcStages', pDstStages = dstStages', pVkBarrier = vkBarrier2\<rparr>))"

section \<open>The build with \<^verbatim>\<open>THSVS_ERROR_CHECK_POTENTIAL_HAZARD\<close> defined\<close>

text \<open>
  With the hazard check compiled in, every iteration of the six loops starts with
  \<^verbatim>\<open>assert(access <= THSVS_ACCESS_PRESENT || count == 1)\<close>. A failed assertion aborts the
  process: the function does not return, which is the value \<open>None\<close>. The loop bodies are
  those of the default build. The other two checks stay compiled out.
\<close>

fun memory_prev_loop_hazard ::
  "nat \<Rightarrow> ThsvsAccessType list \<Rightarrow> VkPipelineStageFlags \<Rightarrow> VkMemoryBarrier
     \<Rightarrow> (VkPipelineStageFlags \<times> VkMemoryBarrier) option" where
  "memory_prev_loop_hazard prevAccessCount [] srcStages vkBarrier = Some (srcStages, vkBarrier)"
| "memory_prev_loop_hazard prevAccessCount (prevAccess # rest) srcStages vkBarrier =
     (if access_ordinal prevAccess \<le> access_ordinal THSVS_ACCESS_PRESENT \<or> prevAccessCount = 1
      then (case memory_prev_body prevAccess srcStages vkBarrier of
              (srcStages', vkBarrier') \<Rightarrow>
                memory_prev_loop_hazard prevAccessCount rest srcStages' vkBarrier')
      else None)"

fun memory_next_loop_hazard ::
  "nat \<Rightarrow> ThsvsAccessType list \<Rightarrow> VkPipelineStageFlags \<Rightarrow> VkMemoryBarrier
     \<Rightarrow> (VkPipelineStageFlags \<times> VkMemoryBarrier) option" where
  "memory_next_loop_hazard nextAccessCount [] dstStages vkBarrier = Some (dstStages, vkBarrier)"
| "memory_next_loop_hazard nextAccessCount (nextAccess # rest) dstStages vkBarrier =
     (if access_ordinal nextAccess \<le> access_ordinal THSVS_ACCESS_PRESENT \<or> nextAccessCount = 1
      then (case memory_next_body nextAccess dstStages vkBarrier of
              (dstStages', vkBarrier') \<Rightarrow>
                memory_next_loop_hazard nextAccessCount rest dstStages' vkBarrier')
      else None)"

definition thsvsGetVulkanMemoryBarrier_hazard ::
  "ThsvsGlobalBarrier \<Rightarrow> VkPipelineStageFlags \<Rightarrow> VkPipelineStageFlags \<Rightarrow> VkMemoryBarrier
     \<Rightarrow> VkMemoryBarrier outputs option" where
  "thsvsGetVulkanMemoryBarrier_hazard thBarrier srcStages dstStages vkBarrier =
     (let vkBarrier0 = vkBarrier\<lparr>
            VkMemoryBarrier.sType := VK_STRUCTURE_TYPE_MEMORY_BARRIER,
            VkMemoryBarrier.pNext := NULL,
            VkMemoryBarrier.srcAccessMask := 0,
            VkMemoryBarrier.dstAccessMask := 0\<rparr>;
          prevAccesses = ThsvsGlobalBarrier.pPrevAccesses thBarrier;
          nextAccesses = ThsvsGlobalBarrier.pNextAccesses thBarrier
      in case memory_prev_loop_hazard (length prevAccesses) prevAccesses srcStages vkBarrier0 of
        None \<Rightarrow> None
      | Some (srcStages', vkBarrier1) \<Rightarrow>
          (case memory_next_loop_hazard (length nextAccesses) nextAccesses dstStages vkBarrier1 of
            None \<Rightarrow> None
          | Some (dstStages', vkBarrier2) \<Rightarrow>
              Some \<lparr>pSrcStages = srcStages', pDstStages = dstStages', pVkBarrier = vkBarrier2\<rparr>))"

fun buffer_prev_loop_hazard ::
  "nat \<Rightarrow> ThsvsAccessType list \<Rightarrow> VkPipelineStageFlags \<Rightarrow> VkBufferMemoryBarrier
     \<Rightarrow> (VkPipelineStageFlags \<times> VkBufferMemoryBarrier) option" where
  "buffer_prev_loop_hazard prevAccessCount [] srcStages vkBarrier = Some (srcStages, vkBarrier)"
| "buffer_prev_loop_hazard prevAccessCount (prevAccess # rest) srcStages vkBarrier =
     (if access_ordinal prevAccess \<le> access_ordinal THSVS_ACCESS_PRESENT \<or> prevAccessCount = 1
      then (case buffer_prev_body prevAccess srcStages vkBarrier of
              (srcStages', vkBarrier') \<Rightarrow>
                buffer_prev_loop_hazard prevAccessCount rest srcStages' vkBarrier')
      else None)"

fun buffer_next_loop_hazard ::
  "nat \<Rightarrow> ThsvsAccessType list \<Rightarrow> VkPipelineStageFlags \<Rightarrow> VkBufferMemoryBarrier
     \<Rightarrow> (VkPipelineStageFlags \<times> VkBufferMemoryBarrier) option" where
  "buffer_next_loop_hazard nextAccessCount [] dstStages vkBarrier = Some (dstStages, vkBarrier)"
| "buffer_next_loop_hazard nextAccessCount (nextAccess # rest) dstStages vkBarrier =
     (if access_ordinal nextAccess \<le> access_ordinal THSVS_ACCESS_PRESENT \<or> nextAccessCount = 1
      then (case buffer_next_body nextAccess dstStages vkBarrier of
              (dstStages', vkBarrier') \<Rightarrow>
                buffer_next_loop_hazard nextAccessCount rest dstStages' vkBarrier')
      else None)"

definition thsvsGetVulkanBufferMemoryBarrier_hazard ::
  "ThsvsBufferBarrier \<Rightarrow> VkPipelineStageFlags \<Rightarrow> VkPipelineStageFlags \<Rightarrow> VkBufferMemoryBarrier
     \<Rightarrow> VkBufferMemoryBarrier outputs option" where
  "thsvsGetVulkanBufferMemoryBarrier_hazard thBarrier srcStages dstStages vkBarrier =
     (let vkBarrier0 = vkBarrier\<lparr>
            VkBufferMemoryBarrier.sType := VK_STRUCTURE_TYPE_BUFFER_MEMORY_BARRIER,
            VkBufferMemoryBarrier.pNext := NULL,
            VkBufferMemoryBarrier.srcAccessMask := 0,
            VkBufferMemoryBarrier.dstAccessMask := 0,
            VkBufferMemoryBarrier.srcQueueFamilyIndex := ThsvsBufferBarrier.srcQueueFamilyIndex thBarrier,
            VkBufferMemoryBarrier.dstQueueFamilyIndex := ThsvsBufferBarrier.dstQueueFamilyIndex thBarrier,
            VkBufferMemoryBarrier.buffer := ThsvsBufferBarrier.buffer thBarrier,
            VkBufferMemoryBarrier.offset := ThsvsBufferBarrier.offset thBarrier,
            VkBufferMemoryBarrier.size_field := ThsvsBufferBarrier.size_field thBarrier\<rparr>;
          prevAccesses = ThsvsBufferBarrier.pPrevAccesses thBarrier;
          nextAccesses = ThsvsBufferBarrier.pNextAccesses thBarrier
      in case buffer_prev_loop_hazard (length prevAccesses) prevAccesses srcStages vkBarrier0 of
        None \<Rightarrow> None
      | Some (srcStages', vkBarrier1) \<Rightarrow>
          (case buffer_next_loop_hazard (length nextAccesses) nextAccesses dstStages vkBarrier1 of
            None \<Rightarrow> None
          | Some (dstStages', vkBarrier2) \<Rightarrow>
              Some \<lparr>pSrcStages = srcStages', pDstStages = dstStages', pVkBarrier = vkBarrier2\<rparr>))"

fun image_prev_loop_hazard ::
  "ThsvsImageBarrier \<Rightarrow> nat \<Rightarrow> ThsvsAccessType list \<Rightarrow> VkPipelineStageFlags \<Rightarrow> VkImageMemoryBarrier
     \<Rightarrow> (VkPipelineStageFlags \<times> VkImageMemoryBarrier) option" where
  "image_prev_loop_hazard thBarrier prevAccessCount [] srcStages vkBarrier = Some (srcStages, vkBarrier)"
| "image_prev_loop_hazard thBarrier prevAccessCount (prevAccess # rest) srcStages vkBarrier =
     (if access_ordinal prevAccess \<le> access_ordinal THSVS_ACCESS_PRESENT \<or> prevAccessCount = 1
      then (case image_prev_body thBarrier prevAccess srcStages vkBarrier of
              (srcStages', vkBarrier') \<Rightarrow>
                image_prev_loop_hazard thBarrier prevAccessCount rest srcStages' vkBarrier')
      else None)"

fun image_next_loop_hazard ::
  "ThsvsImageBarrier \<Rightarrow> nat \<Rightarrow> ThsvsAccessType list \<Rightarrow> VkPipelineStageFlags \<Rightarrow> VkImageMemoryBarrier
     \<Rightarrow> (VkPipelineStageFlags \<times> VkImageMemoryBarrier) option" where
  "image_next_loop_hazard thBarrier nextAccessCount [] dstStages vkBarrier = Some (dstStages, vkBarrier)"
| "image_next_loop_hazard thBarrier nextAccessCount (nextAccess # rest) dstStages vkBarrier =
     (if access_ordinal nextAccess \<le> access_ordinal THSVS_ACCESS_PRESENT \<or> nextAccessCount = 1
      then (case image_next_body thBarrier nextAccess dstStages vkBarrier of
              (dstStages', vkBarrier') \<Rightarrow>
                image_next_loop_hazard thBarrier nextAccessCount rest dstStages' vkBarrier')
      else None)"

definition thsvsGetVulkanImageMemoryBarrier_hazard ::
  "ThsvsImageBarrier \<Rightarrow> VkPipelineStageFlags \<Rightarrow> VkPipelineStageFlags \<Rightarrow> VkImageMemoryBarrier
     \<Rightarrow> VkImageMemoryBarrier outputs option" where
  "thsvsGetVulkanImageMemoryBarrier_hazard thBarrier srcStages dstStages vkBarrier =
     (let vkBarrier0 = vkBarrier\<lparr>
            VkImageMemoryBarrier.sType := VK_STRUCTURE_TYPE_IMAGE_MEMORY_BARRIER,
            VkImageMemoryBarrier.pNext := NULL,
            VkImageMemoryBarrier.srcAccessMask := 0,
            VkImageMemoryBarrier.dstAccessMask := 0,
            VkImageMemoryBarrier.srcQueueFamilyIndex := ThsvsImageBarrier.srcQueueFamilyIndex thBarrier,
            VkImageMemoryBarrier.dstQueueFamilyIndex := ThsvsImageBarrier.dstQueueFamilyIndex thBarrier,
            VkImageMemoryBarrier.image := ThsvsImageBarrier.image thBarrier,
            VkImageMemoryBarrier.subresourceRange := ThsvsImageBarrier.subresourceRange thBarrier\<rparr>;
          prevAccesses = ThsvsImageBarrier.pPrevAccesses thBarrier;
          nextAccesses = ThsvsImageBarrier.pNextAccesses thBarrier
      in case image_prev_loop_hazard thBarrier (length prevAccesses) prevAccesses srcStages vkBarrier0 of
        None \<Rightarrow> None
      | Some (srcStages', vkBarrier1) \<Rightarrow>
          (case image_next_loop_hazard thBarrier (length nextAccesses) nextAccesses dstStages vkBarrier1 of
            None \<Rightarrow> None
          | Some (dstStages', vkBarrier2) \<Rightarrow>
              Some \<lparr>pSrcStages = srcStages', pDstStages = dstStages', pVkBarrier = vkBarrier2\<rparr>))"

section \<open>The command wrappers\<close>

text \<open>
  \<^verbatim>\<open>thsvsCmdPipelineBarrier\<close> and \<^verbatim>\<open>thsvsCmdWaitEvents\<close> end in one call of the Vulkan command;
  the model returns the arguments of that call. \<^verbatim>\<open>pGlobalBarrier\<close> is \<open>None\<close> for a null
  pointer; an array and its count are one list, a null array the empty list. What the
  local \<^verbatim>\<open>memoryBarrier\<close> and the arrays from \<^verbatim>\<open>temp_alloc\<close> hold before the mapping functions
  write to them is not determined by the source, so it is an input: \<open>memoryBarrier\<close>, and
  \<open>bufferMemory i\<close> and \<open>imageMemory i\<close> for the \<open>i\<close>-th element of the two arrays.
\<close>

record VkCmdPipelineBarrier_call =
  commandBuffer :: VkCommandBuffer
  srcStageMask :: VkPipelineStageFlags
  dstStageMask :: VkPipelineStageFlags
  dependencyFlags :: VkFlags
  memoryBarrierCount :: nat
  pMemoryBarriers :: "VkMemoryBarrier list"
  bufferMemoryBarrierCount :: nat
  pBufferMemoryBarriers :: "VkBufferMemoryBarrier list"
  imageMemoryBarrierCount :: nat
  pImageMemoryBarriers :: "VkImageMemoryBarrier list"

record VkCmdWaitEvents_call =
  commandBuffer :: VkCommandBuffer
  eventCount :: nat
  pEvents :: "VkEvent list"
  srcStageMask :: VkPipelineStageFlags
  dstStageMask :: VkPipelineStageFlags
  memoryBarrierCount :: nat
  pMemoryBarriers :: "VkMemoryBarrier list"
  bufferMemoryBarrierCount :: nat
  pBufferMemoryBarriers :: "VkBufferMemoryBarrier list"
  imageMemoryBarrierCount :: nat
  pImageMemoryBarriers :: "VkImageMemoryBarrier list"

text \<open>The loop over \<^verbatim>\<open>pBufferBarriers\<close>, from index \<open>i\<close> on.\<close>

fun buffer_barriers_loop ::
  "ThsvsBufferBarrier list \<Rightarrow> nat \<Rightarrow> (nat \<Rightarrow> VkBufferMemoryBarrier)
     \<Rightarrow> VkPipelineStageFlags \<Rightarrow> VkPipelineStageFlags
     \<Rightarrow> VkPipelineStageFlags \<times> VkPipelineStageFlags \<times> VkBufferMemoryBarrier list" where
  "buffer_barriers_loop [] i bufferMemory srcStages dstStages = (srcStages, dstStages, [])"
| "buffer_barriers_loop (thBarrier # rest) i bufferMemory srcStages dstStages =
     (let out = thsvsGetVulkanBufferMemoryBarrier thBarrier srcStages dstStages (bufferMemory i)
      in case buffer_barriers_loop rest (Suc i) bufferMemory (pSrcStages out) (pDstStages out) of
        (srcStages', dstStages', vkBarriers) \<Rightarrow>
          (srcStages', dstStages', pVkBarrier out # vkBarriers))"

text \<open>The loop over \<^verbatim>\<open>pImageBarriers\<close>, from index \<open>i\<close> on.\<close>

fun image_barriers_loop ::
  "ThsvsImageBarrier list \<Rightarrow> nat \<Rightarrow> (nat \<Rightarrow> VkImageMemoryBarrier)
     \<Rightarrow> VkPipelineStageFlags \<Rightarrow> VkPipelineStageFlags
     \<Rightarrow> VkPipelineStageFlags \<times> VkPipelineStageFlags \<times> VkImageMemoryBarrier list" where
  "image_barriers_loop [] i imageMemory srcStages dstStages = (srcStages, dstStages, [])"
| "image_barriers_loop (thBarrier # rest) i imageMemory srcStages dstStages =
     (let out = thsvsGetVulkanImageMemoryBarrier thBarrier srcStages dstStages (imageMemory i)
      in case image_barriers_loop rest (Suc i) imageMemory (pSrcStages out) (pDstStages out) of
        (srcStages', dstStages', vkBarriers) \<Rightarrow>
          (srcStages', dstStages', pVkBarrier out # vkBarriers))"

text \<open>
  The part the two wrappers share word for word: the initial stage masks, then the global
  barrier, the buffer barriers and the image barriers in this order, all accumulating into
  the same two stage masks.
\<close>

definition resolve_barriers ::
  "ThsvsGlobalBarrier option \<Rightarrow> ThsvsBufferBarrier list \<Rightarrow> ThsvsImageBarrier list
     \<Rightarrow> VkMemoryBarrier \<Rightarrow> (nat \<Rightarrow> VkBufferMemoryBarrier) \<Rightarrow> (nat \<Rightarrow> VkImageMemoryBarrier)
     \<Rightarrow> VkPipelineStageFlags \<times> VkPipelineStageFlags
        \<times> VkMemoryBarrier list \<times> VkBufferMemoryBarrier list \<times> VkImageMemoryBarrier list" where
  "resolve_barriers pGlobalBarrier pBufferBarriers pImageBarriers memoryBarrier bufferMemory imageMemory =
     (let srcStages = VK_PIPELINE_STAGE_TOP_OF_PIPE_BIT;
          dstStages = VK_PIPELINE_STAGE_BOTTOM_OF_PIPE_BIT;
          (srcStages1, dstStages1, memoryBarriers) =
            (case pGlobalBarrier of
               None \<Rightarrow> (srcStages, dstStages, [])
             | Some globalBarrier \<Rightarrow>
                 (let out = thsvsGetVulkanMemoryBarrier globalBarrier srcStages dstStages memoryBarrier
                  in (pSrcStages out, pDstStages out, [pVkBarrier out])));
          (srcStages2, dstStages2, bufferMemoryBarriers) =
            (if length pBufferBarriers > 0
             then buffer_barriers_loop pBufferBarriers 0 bufferMemory srcStages1 dstStages1
             else (srcStages1, dstStages1, []));
          (srcStages3, dstStages3, imageMemoryBarriers) =
            (if length pImageBarriers > 0
             then image_barriers_loop pImageBarriers 0 imageMemory srcStages2 dstStages2
             else (srcStages2, dstStages2, []))
      in (srcStages3, dstStages3, memoryBarriers, bufferMemoryBarriers, imageMemoryBarriers))"

definition thsvsCmdPipelineBarrier ::
  "VkCommandBuffer \<Rightarrow> ThsvsGlobalBarrier option \<Rightarrow> ThsvsBufferBarrier list \<Rightarrow> ThsvsImageBarrier list
     \<Rightarrow> VkMemoryBarrier \<Rightarrow> (nat \<Rightarrow> VkBufferMemoryBarrier) \<Rightarrow> (nat \<Rightarrow> VkImageMemoryBarrier)
     \<Rightarrow> VkCmdPipelineBarrier_call" where
  "thsvsCmdPipelineBarrier cmdBuffer pGlobalBarrier pBufferBarriers pImageBarriers
       memoryBarrier bufferMemory imageMemory =
     (case resolve_barriers pGlobalBarrier pBufferBarriers pImageBarriers
             memoryBarrier bufferMemory imageMemory of
        (srcStages, dstStages, memoryBarriers, bufferMemoryBarriers, imageMemoryBarriers) \<Rightarrow>
          \<lparr>VkCmdPipelineBarrier_call.commandBuffer = cmdBuffer,
           srcStageMask = srcStages,
           dstStageMask = dstStages,
           dependencyFlags = 0,
           memoryBarrierCount = (if pGlobalBarrier \<noteq> None then 1 else 0),
           pMemoryBarriers = memoryBarriers,
           bufferMemoryBarrierCount = length pBufferBarriers,
           pBufferMemoryBarriers = bufferMemoryBarriers,
           imageMemoryBarrierCount = length pImageBarriers,
           pImageMemoryBarriers = imageMemoryBarriers\<rparr>)"

definition thsvsCmdWaitEvents ::
  "VkCommandBuffer \<Rightarrow> VkEvent list
     \<Rightarrow> ThsvsGlobalBarrier option \<Rightarrow> ThsvsBufferBarrier list \<Rightarrow> ThsvsImageBarrier list
     \<Rightarrow> VkMemoryBarrier \<Rightarrow> (nat \<Rightarrow> VkBufferMemoryBarrier) \<Rightarrow> (nat \<Rightarrow> VkImageMemoryBarrier)
     \<Rightarrow> VkCmdWaitEvents_call" where
  "thsvsCmdWaitEvents cmdBuffer events pGlobalBarrier pBufferBarriers pImageBarriers
       memoryBarrier bufferMemory imageMemory =
     (case resolve_barriers pGlobalBarrier pBufferBarriers pImageBarriers
             memoryBarrier bufferMemory imageMemory of
        (srcStages, dstStages, memoryBarriers, bufferMemoryBarriers, imageMemoryBarriers) \<Rightarrow>
          \<lparr>VkCmdWaitEvents_call.commandBuffer = cmdBuffer,
           eventCount = length events,
           pEvents = events,
           srcStageMask = srcStages,
           dstStageMask = dstStages,
           memoryBarrierCount = (if pGlobalBarrier \<noteq> None then 1 else 0),
           pMemoryBarriers = memoryBarriers,
           bufferMemoryBarrierCount = length pBufferBarriers,
           pBufferMemoryBarriers = bufferMemoryBarriers,
           imageMemoryBarrierCount = length pImageBarriers,
           pImageMemoryBarriers = imageMemoryBarriers\<rparr>)"

section \<open>The resolver as the specification words it\<close>

text \<open>
  ``OR over the accesses of \<open>registry[a].mask\<close>'': the bitwise OR of \<open>f a\<close> over the entries
  \<open>a\<close> of a list, zero for the empty list.
\<close>

fun OR_over :: "('a \<Rightarrow> VkFlags) \<Rightarrow> 'a list \<Rightarrow> VkFlags" where
  "OR_over f [] = 0"
| "OR_over f (a # as) = f a OR OR_over f as"

text \<open>The read class of the specification: the ordinals up to that of the present usage.\<close>

definition read_class :: "ThsvsAccessType \<Rightarrow> bool" where
  "read_class a = (access_ordinal a \<le> access_ordinal THSVS_ACCESS_PRESENT)"

text \<open>The layout a single access resolves to under a layout mode (the table of modes).\<close>

definition mode_layout :: "ThsvsImageLayout \<Rightarrow> ThsvsAccessType \<Rightarrow> VkImageLayout" where
  "mode_layout m a =
     (case m of
        THSVS_IMAGE_LAYOUT_OPTIMAL \<Rightarrow> imageLayout (access_info a)
      | THSVS_IMAGE_LAYOUT_GENERAL \<Rightarrow>
          if a = THSVS_ACCESS_PRESENT then VK_IMAGE_LAYOUT_PRESENT_SRC_KHR else VK_IMAGE_LAYOUT_GENERAL
      | THSVS_IMAGE_LAYOUT_GENERAL_AND_PRESENTATION \<Rightarrow> VK_IMAGE_LAYOUT_SHARED_PRESENT_KHR)"

text \<open>The old layout one previous access resolves to: the discard rule, then the mode.\<close>

definition old_layout_of :: "ThsvsImageBarrier \<Rightarrow> ThsvsAccessType \<Rightarrow> VkImageLayout" where
  "old_layout_of thBarrier a =
     (if discardContents thBarrier = VK_TRUE then VK_IMAGE_LAYOUT_UNDEFINED
      else mode_layout (prevLayout thBarrier) a)"

text \<open>
  The lists the hazard check rejects, in the words of the specification: more than one
  entry, one of them of the write or general class.
\<close>

definition hazardous :: "ThsvsAccessType list \<Rightarrow> bool" where
  "hazardous accesses =
     (1 < length accesses \<and>
      (\<exists>a \<in> set accesses. access_ordinal THSVS_ACCESS_PRESENT < access_ordinal a))"

text \<open>
  The first block of \<open>resolve_barriers\<close> (the global memory barrier) on its own, so that
  the three blocks can be reasoned about one at a time.
\<close>

definition global_stage ::
  "ThsvsGlobalBarrier option \<Rightarrow> VkMemoryBarrier
     \<Rightarrow> VkPipelineStageFlags \<times> VkPipelineStageFlags \<times> VkMemoryBarrier list" where
  "global_stage g mb =
     (case g of
        None \<Rightarrow> (VK_PIPELINE_STAGE_TOP_OF_PIPE_BIT, VK_PIPELINE_STAGE_BOTTOM_OF_PIPE_BIT, [])
      | Some globalBarrier \<Rightarrow>
          (let out = thsvsGetVulkanMemoryBarrier globalBarrier
                       VK_PIPELINE_STAGE_TOP_OF_PIPE_BIT VK_PIPELINE_STAGE_BOTTOM_OF_PIPE_BIT mb
           in (pSrcStages out, pDstStages out, [pVkBarrier out])))"

section \<open>Auxiliary facts\<close>

lemma bit_OR_over: "bit (OR_over f xs) n \<longleftrightarrow> (\<exists>a\<in>set xs. bit (f a) n)"
  by (induction xs) (auto simp: bit_or_iff)

lemma OR_over_cong_set: "set xs = set ys \<Longrightarrow> OR_over f xs = OR_over f ys"
  by (rule bit_eqI) (simp add: bit_OR_over)

lemma OR_over_mset: "mset xs = mset ys \<Longrightarrow> OR_over f xs = OR_over f ys"
  by (rule OR_over_cong_set) (rule mset_eq_setD)

lemma memory_prev_loop_eq:
  "memory_prev_loop xs s b =
     (s OR OR_over (\<lambda>a. stageMask (access_info a)) xs,
      b\<lparr>VkMemoryBarrier.srcAccessMask := VkMemoryBarrier.srcAccessMask b OR
           OR_over (\<lambda>a. accessMask (access_info a))
             (filter (\<lambda>a. access_ordinal a > access_ordinal THSVS_ACCESS_PRESENT) xs)\<rparr>)"
  by (induction xs arbitrary: s b) (simp_all add: memory_prev_body_def Let_def or.assoc)

lemma memory_next_loop_eq:
  "memory_next_loop xs d b =
     (d OR OR_over (\<lambda>a. stageMask (access_info a)) xs,
      b\<lparr>VkMemoryBarrier.dstAccessMask := VkMemoryBarrier.dstAccessMask b OR
           OR_over (\<lambda>a. accessMask (access_info a)) xs\<rparr>)"
  by (induction xs arbitrary: d b) (simp_all add: memory_next_body_def Let_def or.assoc)

lemma buffer_prev_loop_eq:
  "buffer_prev_loop xs s b =
     (s OR OR_over (\<lambda>a. stageMask (access_info a)) xs,
      b\<lparr>VkBufferMemoryBarrier.srcAccessMask := VkBufferMemoryBarrier.srcAccessMask b OR
           OR_over (\<lambda>a. accessMask (access_info a))
             (filter (\<lambda>a. access_ordinal a > access_ordinal THSVS_ACCESS_PRESENT) xs)\<rparr>)"
  by (induction xs arbitrary: s b) (simp_all add: buffer_prev_body_def Let_def or.assoc)

lemma buffer_next_loop_eq:
  "buffer_next_loop xs d b =
     (d OR OR_over (\<lambda>a. stageMask (access_info a)) xs,
      b\<lparr>VkBufferMemoryBarrier.dstAccessMask := VkBufferMemoryBarrier.dstAccessMask b OR
           OR_over (\<lambda>a. accessMask (access_info a)) xs\<rparr>)"
  by (induction xs arbitrary: d b) (simp_all add: buffer_next_body_def Let_def or.assoc)

lemma image_prev_body_eq:
  "image_prev_body th a s b =
     (s OR stageMask (access_info a),
      b\<lparr>VkImageMemoryBarrier.srcAccessMask :=
           (if access_ordinal a > access_ordinal THSVS_ACCESS_PRESENT
            then VkImageMemoryBarrier.srcAccessMask b OR accessMask (access_info a)
            else VkImageMemoryBarrier.srcAccessMask b),
         oldLayout := old_layout_of th a\<rparr>)"
  by (simp add: image_prev_body_def old_layout_of_def mode_layout_def Let_def
           split: ThsvsImageLayout.split)

lemma image_next_body_eq:
  "image_next_body th a d b =
     (d OR stageMask (access_info a),
      b\<lparr>VkImageMemoryBarrier.dstAccessMask :=
           VkImageMemoryBarrier.dstAccessMask b OR accessMask (access_info a),
         newLayout := mode_layout (nextLayout th) a\<rparr>)"
  by (simp add: image_next_body_def mode_layout_def Let_def split: ThsvsImageLayout.split)

lemma image_prev_loop_eq:
  "image_prev_loop th xs s b =
     (s OR OR_over (\<lambda>a. stageMask (access_info a)) xs,
      b\<lparr>VkImageMemoryBarrier.srcAccessMask := VkImageMemoryBarrier.srcAccessMask b OR
           OR_over (\<lambda>a. accessMask (access_info a))
             (filter (\<lambda>a. access_ordinal a > access_ordinal THSVS_ACCESS_PRESENT) xs),
         oldLayout := (if xs = [] then oldLayout b else old_layout_of th (last xs))\<rparr>)"
  by (induction xs arbitrary: s b) (simp_all add: image_prev_body_eq or.assoc)

lemma image_next_loop_eq:
  "image_next_loop th xs d b =
     (d OR OR_over (\<lambda>a. stageMask (access_info a)) xs,
      b\<lparr>VkImageMemoryBarrier.dstAccessMask := VkImageMemoryBarrier.dstAccessMask b OR
           OR_over (\<lambda>a. accessMask (access_info a)) xs,
         newLayout := (if xs = [] then newLayout b else mode_layout (nextLayout th) (last xs))\<rparr>)"
  by (induction xs arbitrary: d b) (simp_all add: image_next_body_eq or.assoc)

lemma thsvsGetVulkanMemoryBarrier_eq:
  "thsvsGetVulkanMemoryBarrier th s d vk =
     \<lparr>pSrcStages = s OR OR_over (\<lambda>a. stageMask (access_info a)) (ThsvsGlobalBarrier.pPrevAccesses th),
      pDstStages = d OR OR_over (\<lambda>a. stageMask (access_info a)) (ThsvsGlobalBarrier.pNextAccesses th),
      pVkBarrier = vk\<lparr>
        VkMemoryBarrier.sType := VK_STRUCTURE_TYPE_MEMORY_BARRIER,
        VkMemoryBarrier.pNext := NULL,
        VkMemoryBarrier.srcAccessMask :=
          OR_over (\<lambda>a. accessMask (access_info a))
            (filter (\<lambda>a. access_ordinal a > access_ordinal THSVS_ACCESS_PRESENT)
               (ThsvsGlobalBarrier.pPrevAccesses th)),
        VkMemoryBarrier.dstAccessMask :=
          OR_over (\<lambda>a. accessMask (access_info a)) (ThsvsGlobalBarrier.pNextAccesses th)\<rparr>\<rparr>"
  by (simp add: thsvsGetVulkanMemoryBarrier_def memory_prev_loop_eq memory_next_loop_eq)

lemma thsvsGetVulkanBufferMemoryBarrier_eq:
  "thsvsGetVulkanBufferMemoryBarrier th s d vk =
     \<lparr>pSrcStages = s OR OR_over (\<lambda>a. stageMask (access_info a)) (ThsvsBufferBarrier.pPrevAccesses th),
      pDstStages = d OR OR_over (\<lambda>a. stageMask (access_info a)) (ThsvsBufferBarrier.pNextAccesses th),
      pVkBarrier = vk\<lparr>
        VkBufferMemoryBarrier.sType := VK_STRUCTURE_TYPE_BUFFER_MEMORY_BARRIER,
        VkBufferMemoryBarrier.pNext := NULL,
        VkBufferMemoryBarrier.srcAccessMask :=
          OR_over (\<lambda>a. accessMask (access_info a))
            (filter (\<lambda>a. access_ordinal a > access_ordinal THSVS_ACCESS_PRESENT)
               (ThsvsBufferBarrier.pPrevAccesses th)),
        VkBufferMemoryBarrier.dstAccessMask :=
          OR_over (\<lambda>a. accessMask (access_info a)) (ThsvsBufferBarrier.pNextAccesses th),
        VkBufferMemoryBarrier.srcQueueFamilyIndex := ThsvsBufferBarrier.srcQueueFamilyIndex th,
        VkBufferMemoryBarrier.dstQueueFamilyIndex := ThsvsBufferBarrier.dstQueueFamilyIndex th,
        VkBufferMemoryBarrier.buffer := ThsvsBufferBarrier.buffer th,
        VkBufferMemoryBarrier.offset := ThsvsBufferBarrier.offset th,
        VkBufferMemoryBarrier.size_field := ThsvsBufferBarrier.size_field th\<rparr>\<rparr>"
  by (simp add: thsvsGetVulkanBufferMemoryBarrier_def buffer_prev_loop_eq buffer_next_loop_eq)

lemma thsvsGetVulkanImageMemoryBarrier_eq:
  "thsvsGetVulkanImageMemoryBarrier th s d vk =
     \<lparr>pSrcStages = s OR OR_over (\<lambda>a. stageMask (access_info a)) (ThsvsImageBarrier.pPrevAccesses th),
      pDstStages = d OR OR_over (\<lambda>a. stageMask (access_info a)) (ThsvsImageBarrier.pNextAccesses th),
      pVkBarrier = vk\<lparr>
        VkImageMemoryBarrier.sType := VK_STRUCTURE_TYPE_IMAGE_MEMORY_BARRIER,
        VkImageMemoryBarrier.pNext := NULL,
        VkImageMemoryBarrier.srcAccessMask :=
          OR_over (\<lambda>a. accessMask (access_info a))
            (filter (\<lambda>a. access_ordinal a > access_ordinal THSVS_ACCESS_PRESENT)
               (ThsvsImageBarrier.pPrevAccesses th)),
        VkImageMemoryBarrier.dstAccessMask :=
          OR_over (\<lambda>a. accessMask (access_info a)) (ThsvsImageBarrier.pNextAccesses th),
        oldLayout :=
          (if ThsvsImageBarrier.pPrevAccesses th = [] then oldLayout vk
           else old_layout_of th (last (ThsvsImageBarrier.pPrevAccesses th))),
        newLayout :=
          (if ThsvsImageBarrier.pNextAccesses th = [] then newLayout vk
           else mode_layout (nextLayout th) (last (ThsvsImageBarrier.pNextAccesses th))),
        VkImageMemoryBarrier.srcQueueFamilyIndex := ThsvsImageBarrier.srcQueueFamilyIndex th,
        VkImageMemoryBarrier.dstQueueFamilyIndex := ThsvsImageBarrier.dstQueueFamilyIndex th,
        VkImageMemoryBarrier.image := ThsvsImageBarrier.image th,
        VkImageMemoryBarrier.subresourceRange := ThsvsImageBarrier.subresourceRange th\<rparr>\<rparr>"
  by (simp add: thsvsGetVulkanImageMemoryBarrier_def image_prev_loop_eq image_next_loop_eq)

lemma access_info_COMPUTE_SHADER_READ_OTHER:
  "access_info THSVS_ACCESS_COMPUTE_SHADER_READ_OTHER =
     \<lparr>stageMask = VK_PIPELINE_STAGE_COMPUTE_SHADER_BIT,
      accessMask = VK_ACCESS_SHADER_READ_BIT,
      imageLayout = VK_IMAGE_LAYOUT_GENERAL\<rparr>"
  by (simp add: access_info_def ThsvsAccessMap_def)

lemma access_info_COMPUTE_SHADER_WRITE:
  "access_info THSVS_ACCESS_COMPUTE_SHADER_WRITE =
     \<lparr>stageMask = VK_PIPELINE_STAGE_COMPUTE_SHADER_BIT,
      accessMask = VK_ACCESS_SHADER_WRITE_BIT,
      imageLayout = VK_IMAGE_LAYOUT_GENERAL\<rparr>"
  by (simp add: access_info_def ThsvsAccessMap_def)

lemma access_info_INDEX_BUFFER:
  "access_info THSVS_ACCESS_INDEX_BUFFER =
     \<lparr>stageMask = VK_PIPELINE_STAGE_VERTEX_INPUT_BIT,
      accessMask = VK_ACCESS_INDEX_READ_BIT,
      imageLayout = VK_IMAGE_LAYOUT_UNDEFINED\<rparr>"
  by (simp add: access_info_def ThsvsAccessMap_def)

lemma access_info_COMPUTE_SHADER_READ_UNIFORM_BUFFER:
  "access_info THSVS_ACCESS_COMPUTE_SHADER_READ_UNIFORM_BUFFER =
     \<lparr>stageMask = VK_PIPELINE_STAGE_COMPUTE_SHADER_BIT,
      accessMask = VK_ACCESS_UNIFORM_READ_BIT,
      imageLayout = VK_IMAGE_LAYOUT_UNDEFINED\<rparr>"
  by (simp add: access_info_def ThsvsAccessMap_def)

lemma access_info_FRAGMENT_SHADER_READ_SAMPLED_IMAGE:
  "access_info THSVS_ACCESS_FRAGMENT_SHADER_READ_SAMPLED_IMAGE_OR_UNIFORM_TEXEL_BUFFER =
     \<lparr>stageMask = VK_PIPELINE_STAGE_FRAGMENT_SHADER_BIT,
      accessMask = VK_ACCESS_SHADER_READ_BIT,
      imageLayout = VK_IMAGE_LAYOUT_SHADER_READ_ONLY_OPTIMAL\<rparr>"
  by (simp add: access_info_def ThsvsAccessMap_def)

lemma access_info_TRANSFER_READ:
  "access_info THSVS_ACCESS_TRANSFER_READ =
     \<lparr>stageMask = VK_PIPELINE_STAGE_TRANSFER_BIT,
      accessMask = VK_ACCESS_TRANSFER_READ_BIT,
      imageLayout = VK_IMAGE_LAYOUT_TRANSFER_SRC_OPTIMAL\<rparr>"
  by (simp add: access_info_def ThsvsAccessMap_def)

lemma access_info_PRESENT:
  "access_info THSVS_ACCESS_PRESENT =
     \<lparr>stageMask = VK_PIPELINE_STAGE_TOP_OF_PIPE_BIT,
      accessMask = 0,
      imageLayout = VK_IMAGE_LAYOUT_PRESENT_SRC_KHR\<rparr>"
  by (simp add: access_info_def ThsvsAccessMap_def)

lemma access_info_COLOR_ATTACHMENT_WRITE:
  "access_info THSVS_ACCESS_COLOR_ATTACHMENT_WRITE =
     \<lparr>stageMask = VK_PIPELINE_STAGE_COLOR_ATTACHMENT_OUTPUT_BIT,
      accessMask = VK_ACCESS_COLOR_ATTACHMENT_WRITE_BIT,
      imageLayout = VK_IMAGE_LAYOUT_COLOR_ATTACHMENT_OPTIMAL\<rparr>"
  by (simp add: access_info_def ThsvsAccessMap_def)

lemma access_info_TRANSFER_WRITE:
  "access_info THSVS_ACCESS_TRANSFER_WRITE =
     \<lparr>stageMask = VK_PIPELINE_STAGE_TRANSFER_BIT,
      accessMask = VK_ACCESS_TRANSFER_WRITE_BIT,
      imageLayout = VK_IMAGE_LAYOUT_TRANSFER_DST_OPTIMAL\<rparr>"
  by (simp add: access_info_def ThsvsAccessMap_def)

lemmas access_info_simps =
  access_info_COMPUTE_SHADER_READ_OTHER access_info_COMPUTE_SHADER_WRITE
  access_info_INDEX_BUFFER access_info_COMPUTE_SHADER_READ_UNIFORM_BUFFER
  access_info_FRAGMENT_SHADER_READ_SAMPLED_IMAGE access_info_TRANSFER_READ
  access_info_PRESENT access_info_COLOR_ATTACHMENT_WRITE access_info_TRANSFER_WRITE

lemma assert_all_iff:
  "(\<forall>a\<in>set xs. access_ordinal a \<le> access_ordinal THSVS_ACCESS_PRESENT \<or> length xs = 1)
     \<longleftrightarrow> \<not> hazardous xs"
proof (cases xs)
  case Nil
  then show ?thesis by (simp add: hazardous_def)
next
  case (Cons x ys)
  then show ?thesis by (cases ys) (auto simp: hazardous_def not_less)
qed

lemma memory_prev_loop_hazard_eq:
  "memory_prev_loop_hazard n xs s b =
     (if \<forall>a\<in>set xs. access_ordinal a \<le> access_ordinal THSVS_ACCESS_PRESENT \<or> n = 1
      then Some (memory_prev_loop xs s b) else None)"
  by (induction xs arbitrary: s b) (auto split: prod.splits)

lemma memory_next_loop_hazard_eq:
  "memory_next_loop_hazard n xs s b =
     (if \<forall>a\<in>set xs. access_ordinal a \<le> access_ordinal THSVS_ACCESS_PRESENT \<or> n = 1
      then Some (memory_next_loop xs s b) else None)"
  by (induction xs arbitrary: s b) (auto split: prod.splits)

lemma buffer_prev_loop_hazard_eq:
  "buffer_prev_loop_hazard n xs s b =
     (if \<forall>a\<in>set xs. access_ordinal a \<le> access_ordinal THSVS_ACCESS_PRESENT \<or> n = 1
      then Some (buffer_prev_loop xs s b) else None)"
  by (induction xs arbitrary: s b) (auto split: prod.splits)

lemma buffer_next_loop_hazard_eq:
  "buffer_next_loop_hazard n xs s b =
     (if \<forall>a\<in>set xs. access_ordinal a \<le> access_ordinal THSVS_ACCESS_PRESENT \<or> n = 1
      then Some (buffer_next_loop xs s b) else None)"
  by (induction xs arbitrary: s b) (auto split: prod.splits)

lemma image_prev_loop_hazard_eq:
  "image_prev_loop_hazard th n xs s b =
     (if \<forall>a\<in>set xs. access_ordinal a \<le> access_ordinal THSVS_ACCESS_PRESENT \<or> n = 1
      then Some (image_prev_loop th xs s b) else None)"
  by (induction xs arbitrary: s b) (auto split: prod.splits)

lemma image_next_loop_hazard_eq:
  "image_next_loop_hazard th n xs s b =
     (if \<forall>a\<in>set xs. access_ordinal a \<le> access_ordinal THSVS_ACCESS_PRESENT \<or> n = 1
      then Some (image_next_loop th xs s b) else None)"
  by (induction xs arbitrary: s b) (auto split: prod.splits)

lemma thsvsGetVulkanMemoryBarrier_hazard_eq:
  "thsvsGetVulkanMemoryBarrier_hazard g s d vk =
     (if hazardous (ThsvsGlobalBarrier.pPrevAccesses g) \<or> hazardous (ThsvsGlobalBarrier.pNextAccesses g)
      then None else Some (thsvsGetVulkanMemoryBarrier g s d vk))"
  unfolding thsvsGetVulkanMemoryBarrier_hazard_def thsvsGetVulkanMemoryBarrier_def Let_def
    memory_prev_loop_hazard_eq memory_next_loop_hazard_eq assert_all_iff
  by (simp split: prod.splits)

lemma thsvsGetVulkanBufferMemoryBarrier_hazard_eq:
  "thsvsGetVulkanBufferMemoryBarrier_hazard g s d vk =
     (if hazardous (ThsvsBufferBarrier.pPrevAccesses g) \<or> hazardous (ThsvsBufferBarrier.pNextAccesses g)
      then None else Some (thsvsGetVulkanBufferMemoryBarrier g s d vk))"
  unfolding thsvsGetVulkanBufferMemoryBarrier_hazard_def thsvsGetVulkanBufferMemoryBarrier_def Let_def
    buffer_prev_loop_hazard_eq buffer_next_loop_hazard_eq assert_all_iff
  by (simp split: prod.splits)

lemma thsvsGetVulkanImageMemoryBarrier_hazard_eq:
  "thsvsGetVulkanImageMemoryBarrier_hazard g s d vk =
     (if hazardous (ThsvsImageBarrier.pPrevAccesses g) \<or> hazardous (ThsvsImageBarrier.pNextAccesses g)
      then None else Some (thsvsGetVulkanImageMemoryBarrier g s d vk))"
  unfolding thsvsGetVulkanImageMemoryBarrier_hazard_def thsvsGetVulkanImageMemoryBarrier_def Let_def
    image_prev_loop_hazard_eq image_next_loop_hazard_eq assert_all_iff
  by (simp split: prod.splits)

lemma and_or_self: "(s::VkFlags) AND (s OR x) = s"
  by (rule bit_eqI) (auto simp: bit_and_iff bit_or_iff)

lemma contains_trans: "(s::VkFlags) AND t = s \<Longrightarrow> t AND r = t \<Longrightarrow> s AND r = s"
  by (metis and.assoc)

lemma buffer_barriers_loop_mono:
  "s AND fst (buffer_barriers_loop bs i m s d) = s
   \<and> d AND fst (snd (buffer_barriers_loop bs i m s d)) = d"
proof (induction bs arbitrary: i s d)
  case Nil
  then show ?case by simp
next
  case (Cons b bs)
  let ?o = "thsvsGetVulkanBufferMemoryBarrier b s d (m i)"
  let ?r = "buffer_barriers_loop bs (Suc i) m (pSrcStages ?o) (pDstStages ?o)"
  have 1: "s AND pSrcStages ?o = s" and 2: "d AND pDstStages ?o = d"
    by (simp_all add: thsvsGetVulkanBufferMemoryBarrier_eq and_or_self)
  have 3: "pSrcStages ?o AND fst ?r = pSrcStages ?o"
    and 4: "pDstStages ?o AND fst (snd ?r) = pDstStages ?o"
    using Cons.IH[of "pSrcStages ?o" "Suc i" "pDstStages ?o"] by simp_all
  have 5: "fst (buffer_barriers_loop (b # bs) i m s d) = fst ?r"
    and 6: "fst (snd (buffer_barriers_loop (b # bs) i m s d)) = fst (snd ?r)"
    by (simp_all add: Let_def split: prod.splits)
  show ?case
    unfolding 5 6 using contains_trans[OF 1 3] contains_trans[OF 2 4] by simp
qed

lemma image_barriers_loop_mono:
  "s AND fst (image_barriers_loop bs i m s d) = s
   \<and> d AND fst (snd (image_barriers_loop bs i m s d)) = d"
proof (induction bs arbitrary: i s d)
  case Nil
  then show ?case by simp
next
  case (Cons b bs)
  let ?o = "thsvsGetVulkanImageMemoryBarrier b s d (m i)"
  let ?r = "image_barriers_loop bs (Suc i) m (pSrcStages ?o) (pDstStages ?o)"
  have 1: "s AND pSrcStages ?o = s" and 2: "d AND pDstStages ?o = d"
    by (simp_all add: thsvsGetVulkanImageMemoryBarrier_eq and_or_self)
  have 3: "pSrcStages ?o AND fst ?r = pSrcStages ?o"
    and 4: "pDstStages ?o AND fst (snd ?r) = pDstStages ?o"
    using Cons.IH[of "pSrcStages ?o" "Suc i" "pDstStages ?o"] by simp_all
  have 5: "fst (image_barriers_loop (b # bs) i m s d) = fst ?r"
    and 6: "fst (snd (image_barriers_loop (b # bs) i m s d)) = fst (snd ?r)"
    by (simp_all add: Let_def split: prod.splits)
  show ?case
    unfolding 5 6 using contains_trans[OF 1 3] contains_trans[OF 2 4] by simp
qed

lemma global_stage_mono:
  "VK_PIPELINE_STAGE_TOP_OF_PIPE_BIT AND fst (global_stage g mb) = VK_PIPELINE_STAGE_TOP_OF_PIPE_BIT
   \<and> VK_PIPELINE_STAGE_BOTTOM_OF_PIPE_BIT AND fst (snd (global_stage g mb))
       = VK_PIPELINE_STAGE_BOTTOM_OF_PIPE_BIT"
  by (cases g) (simp_all add: global_stage_def thsvsGetVulkanMemoryBarrier_eq and_or_self)

lemma resolve_barriers_stages:
  "fst (resolve_barriers g bs is mb bm im) =
     fst (image_barriers_loop is 0 im
       (fst (buffer_barriers_loop bs 0 bm (fst (global_stage g mb)) (fst (snd (global_stage g mb)))))
       (fst (snd (buffer_barriers_loop bs 0 bm (fst (global_stage g mb)) (fst (snd (global_stage g mb)))))))
   \<and> fst (snd (resolve_barriers g bs is mb bm im)) =
     fst (snd (image_barriers_loop is 0 im
       (fst (buffer_barriers_loop bs 0 bm (fst (global_stage g mb)) (fst (snd (global_stage g mb)))))
       (fst (snd (buffer_barriers_loop bs 0 bm (fst (global_stage g mb)) (fst (snd (global_stage g mb))))))))"
proof -
  have b: "(if bs \<noteq> [] then buffer_barriers_loop bs 0 bm s d else (s, d, []))
             = buffer_barriers_loop bs 0 bm s d" for s d
    by (cases bs) simp_all
  have i: "(if is \<noteq> [] then image_barriers_loop is 0 im s d else (s, d, []))
             = image_barriers_loop is 0 im s d" for s d
    by (cases "is") simp_all
  show ?thesis
    by (simp add: resolve_barriers_def global_stage_def Let_def split_beta b i)
qed

lemma resolve_barriers_defaults:
  "VK_PIPELINE_STAGE_TOP_OF_PIPE_BIT AND fst (resolve_barriers g bs is mb bm im)
     = VK_PIPELINE_STAGE_TOP_OF_PIPE_BIT
   \<and> VK_PIPELINE_STAGE_BOTTOM_OF_PIPE_BIT AND fst (snd (resolve_barriers g bs is mb bm im))
     = VK_PIPELINE_STAGE_BOTTOM_OF_PIPE_BIT"
proof -
  let ?s1 = "fst (global_stage g mb)" and ?d1 = "fst (snd (global_stage g mb))"
  let ?s2 = "fst (buffer_barriers_loop bs 0 bm ?s1 ?d1)"
  let ?d2 = "fst (snd (buffer_barriers_loop bs 0 bm ?s1 ?d1))"
  let ?s3 = "fst (image_barriers_loop is 0 im ?s2 ?d2)"
  let ?d3 = "fst (snd (image_barriers_loop is 0 im ?s2 ?d2))"
  note g = global_stage_mono[of g mb]
  note b = buffer_barriers_loop_mono[of ?s1 bs 0 bm ?d1]
  note i = image_barriers_loop_mono[of ?s2 "is" 0 im ?d2]
  have "VK_PIPELINE_STAGE_TOP_OF_PIPE_BIT AND ?s3 = VK_PIPELINE_STAGE_TOP_OF_PIPE_BIT"
    by (rule contains_trans[OF contains_trans[OF conjunct1[OF g] conjunct1[OF b]] conjunct1[OF i]])
  moreover have "VK_PIPELINE_STAGE_BOTTOM_OF_PIPE_BIT AND ?d3 = VK_PIPELINE_STAGE_BOTTOM_OF_PIPE_BIT"
    by (rule contains_trans[OF contains_trans[OF conjunct2[OF g] conjunct2[OF b]] conjunct2[OF i]])
  ultimately show ?thesis
    using resolve_barriers_stages[of g bs "is" mb bm im] by simp
qed

lemma OR_over_filter_mset:
  assumes "mset xs = mset ys"
  shows "OR_over f (filter P xs) = OR_over f (filter P ys)"
proof -
  have "set xs = set ys"
    using assms by (rule mset_eq_setD)
  then have "set (filter P xs) = set (filter P ys)"
    by simp
  then show ?thesis
    by (rule OR_over_cong_set)
qed

lemma last_resolves_same:
  assumes "set xs = set ys" and "ys \<noteq> []" and "\<forall>a\<in>set ys. \<forall>a'\<in>set ys. f a = f a'"
  shows "f (last xs) = f (last ys)"
proof -
  have "xs \<noteq> []"
  proof
    assume "xs = []"
    then have "set ys = {}" using assms(1) by simp
    then show False using assms(2) by simp
  qed
  then have "last xs \<in> set xs" by (rule last_in_set)
  then have 1: "last xs \<in> set ys" unfolding assms(1) .
  have 2: "last ys \<in> set ys" using assms(2) by (rule last_in_set)
  from assms(3)[rule_format, OF 1 2] show ?thesis .
qed

lemma old_layout_of_lists:
  "old_layout_of (i\<lparr>ThsvsImageBarrier.pPrevAccesses := p, ThsvsImageBarrier.pNextAccesses := n\<rparr>) a
     = old_layout_of i a"
  by (simp add: old_layout_of_def)

lemma memory_barrier_perm:
  assumes "mset prevs' = mset prevs" and "mset nexts' = mset nexts"
  shows "thsvsGetVulkanMemoryBarrier
           \<lparr>ThsvsGlobalBarrier.pPrevAccesses = prevs', pNextAccesses = nexts'\<rparr> s d gvk
         = thsvsGetVulkanMemoryBarrier
           \<lparr>ThsvsGlobalBarrier.pPrevAccesses = prevs, pNextAccesses = nexts\<rparr> s d gvk"
  by (simp add: thsvsGetVulkanMemoryBarrier_eq OR_over_mset[OF assms(1)] OR_over_mset[OF assms(2)]
        OR_over_filter_mset[OF assms(1)])

lemma buffer_barrier_perm:
  assumes "mset prevs' = mset prevs" and "mset nexts' = mset nexts"
  shows "thsvsGetVulkanBufferMemoryBarrier
           (b\<lparr>ThsvsBufferBarrier.pPrevAccesses := prevs', ThsvsBufferBarrier.pNextAccesses := nexts'\<rparr>) s d bvk
         = thsvsGetVulkanBufferMemoryBarrier
           (b\<lparr>ThsvsBufferBarrier.pPrevAccesses := prevs, ThsvsBufferBarrier.pNextAccesses := nexts\<rparr>) s d bvk"
  by (simp add: thsvsGetVulkanBufferMemoryBarrier_eq OR_over_mset[OF assms(1)] OR_over_mset[OF assms(2)]
        OR_over_filter_mset[OF assms(1)])

lemma image_barrier_perm_masks:
  assumes "mset prevs' = mset prevs" and "mset nexts' = mset nexts"
  shows "pSrcStages (thsvsGetVulkanImageMemoryBarrier
          (i\<lparr>ThsvsImageBarrier.pPrevAccesses := prevs', ThsvsImageBarrier.pNextAccesses := nexts'\<rparr>) s d ivk)
       = pSrcStages (thsvsGetVulkanImageMemoryBarrier
          (i\<lparr>ThsvsImageBarrier.pPrevAccesses := prevs, ThsvsImageBarrier.pNextAccesses := nexts\<rparr>) s d ivk)"
    and "pDstStages (thsvsGetVulkanImageMemoryBarrier
          (i\<lparr>ThsvsImageBarrier.pPrevAccesses := prevs', ThsvsImageBarrier.pNextAccesses := nexts'\<rparr>) s d ivk)
       = pDstStages (thsvsGetVulkanImageMemoryBarrier
          (i\<lparr>ThsvsImageBarrier.pPrevAccesses := prevs, ThsvsImageBarrier.pNextAccesses := nexts\<rparr>) s d ivk)"
    and "VkImageMemoryBarrier.srcAccessMask (pVkBarrier (thsvsGetVulkanImageMemoryBarrier
          (i\<lparr>ThsvsImageBarrier.pPrevAccesses := prevs', ThsvsImageBarrier.pNextAccesses := nexts'\<rparr>) s d ivk))
       = VkImageMemoryBarrier.srcAccessMask (pVkBarrier (thsvsGetVulkanImageMemoryBarrier
          (i\<lparr>ThsvsImageBarrier.pPrevAccesses := prevs, ThsvsImageBarrier.pNextAccesses := nexts\<rparr>) s d ivk))"
    and "VkImageMemoryBarrier.dstAccessMask (pVkBarrier (thsvsGetVulkanImageMemoryBarrier
          (i\<lparr>ThsvsImageBarrier.pPrevAccesses := prevs', ThsvsImageBarrier.pNextAccesses := nexts'\<rparr>) s d ivk))
       = VkImageMemoryBarrier.dstAccessMask (pVkBarrier (thsvsGetVulkanImageMemoryBarrier
          (i\<lparr>ThsvsImageBarrier.pPrevAccesses := prevs, ThsvsImageBarrier.pNextAccesses := nexts\<rparr>) s d ivk))"
  by (simp_all add: thsvsGetVulkanImageMemoryBarrier_eq OR_over_mset[OF assms(1)]
        OR_over_mset[OF assms(2)] OR_over_filter_mset[OF assms(1)])

lemma image_barrier_perm_layouts:
  assumes "mset prevs' = mset prevs" and "mset nexts' = mset nexts"
  shows "(\<forall>a\<in>set prevs. \<forall>a'\<in>set prevs. old_layout_of i a = old_layout_of i a') \<Longrightarrow>
         oldLayout (pVkBarrier (thsvsGetVulkanImageMemoryBarrier
          (i\<lparr>ThsvsImageBarrier.pPrevAccesses := prevs', ThsvsImageBarrier.pNextAccesses := nexts'\<rparr>) s d ivk))
       = oldLayout (pVkBarrier (thsvsGetVulkanImageMemoryBarrier
          (i\<lparr>ThsvsImageBarrier.pPrevAccesses := prevs, ThsvsImageBarrier.pNextAccesses := nexts\<rparr>) s d ivk))"
    and "(\<forall>a\<in>set nexts. \<forall>a'\<in>set nexts.
            mode_layout (nextLayout i) a = mode_layout (nextLayout i) a') \<Longrightarrow>
         newLayout (pVkBarrier (thsvsGetVulkanImageMemoryBarrier
          (i\<lparr>ThsvsImageBarrier.pPrevAccesses := prevs', ThsvsImageBarrier.pNextAccesses := nexts'\<rparr>) s d ivk))
       = newLayout (pVkBarrier (thsvsGetVulkanImageMemoryBarrier
          (i\<lparr>ThsvsImageBarrier.pPrevAccesses := prevs, ThsvsImageBarrier.pNextAccesses := nexts\<rparr>) s d ivk))"
proof -
  have sets: "set prevs' = set prevs" "set nexts' = set nexts"
    using assms by (auto dest: mset_eq_setD)
  have emp: "(prevs' = []) = (prevs = [])" "(nexts' = []) = (nexts = [])"
    using assms by (auto dest: mset_eq_length)
  {
    assume c: "\<forall>a\<in>set prevs. \<forall>a'\<in>set prevs. old_layout_of i a = old_layout_of i a'"
    have "prevs \<noteq> [] \<Longrightarrow> old_layout_of i (last prevs') = old_layout_of i (last prevs)"
      by (rule last_resolves_same[OF sets(1) _ c])
    then show "oldLayout (pVkBarrier (thsvsGetVulkanImageMemoryBarrier
          (i\<lparr>ThsvsImageBarrier.pPrevAccesses := prevs', ThsvsImageBarrier.pNextAccesses := nexts'\<rparr>) s d ivk))
       = oldLayout (pVkBarrier (thsvsGetVulkanImageMemoryBarrier
          (i\<lparr>ThsvsImageBarrier.pPrevAccesses := prevs, ThsvsImageBarrier.pNextAccesses := nexts\<rparr>) s d ivk))"
      by (simp add: thsvsGetVulkanImageMemoryBarrier_eq old_layout_of_lists emp)
  }
  {
    assume c: "\<forall>a\<in>set nexts. \<forall>a'\<in>set nexts.
            mode_layout (nextLayout i) a = mode_layout (nextLayout i) a'"
    have "nexts \<noteq> [] \<Longrightarrow> mode_layout (nextLayout i) (last nexts') = mode_layout (nextLayout i) (last nexts)"
      by (rule last_resolves_same[OF sets(2) _ c])
    then show "newLayout (pVkBarrier (thsvsGetVulkanImageMemoryBarrier
          (i\<lparr>ThsvsImageBarrier.pPrevAccesses := prevs', ThsvsImageBarrier.pNextAccesses := nexts'\<rparr>) s d ivk))
       = newLayout (pVkBarrier (thsvsGetVulkanImageMemoryBarrier
          (i\<lparr>ThsvsImageBarrier.pPrevAccesses := prevs, ThsvsImageBarrier.pNextAccesses := nexts\<rparr>) s d ivk))"
      by (simp add: thsvsGetVulkanImageMemoryBarrier_eq emp)
  }
qed

section \<open>The claims\<close>

text \<open>
  C1. Source side of the three mapping functions. The source access mask is the OR of the
  registry access masks over exactly the previous accesses whose ordinal is greater than
  that of \<^verbatim>\<open>THSVS_ACCESS_PRESENT\<close>; the source stage mask is the caller's value ORed with
  the stage masks of all previous accesses, read class included. In particular, from
  zeroed stage masks, a previous compute-shader read (other) followed by a compute-shader
  write gives source access mask 0, destination access mask
  \<^verbatim>\<open>VK_ACCESS_SHADER_WRITE_BIT\<close> and both stage masks
  \<^verbatim>\<open>VK_PIPELINE_STAGE_COMPUTE_SHADER_BIT\<close>.
\<close>

theorem C1_source_access_excludes_reads:
  "VkMemoryBarrier.srcAccessMask (pVkBarrier (thsvsGetVulkanMemoryBarrier g s d gvk)) =
     OR_over (\<lambda>a. accessMask (access_info a))
       (filter (\<lambda>a. access_ordinal a > access_ordinal THSVS_ACCESS_PRESENT)
          (ThsvsGlobalBarrier.pPrevAccesses g))
   \<and> pSrcStages (thsvsGetVulkanMemoryBarrier g s d gvk) =
       s OR OR_over (\<lambda>a. stageMask (access_info a)) (ThsvsGlobalBarrier.pPrevAccesses g)
   \<and> VkBufferMemoryBarrier.srcAccessMask (pVkBarrier (thsvsGetVulkanBufferMemoryBarrier b s d bvk)) =
       OR_over (\<lambda>a. accessMask (access_info a))
         (filter (\<lambda>a. access_ordinal a > access_ordinal THSVS_ACCESS_PRESENT)
            (ThsvsBufferBarrier.pPrevAccesses b))
   \<and> pSrcStages (thsvsGetVulkanBufferMemoryBarrier b s d bvk) =
       s OR OR_over (\<lambda>a. stageMask (access_info a)) (ThsvsBufferBarrier.pPrevAccesses b)
   \<and> VkImageMemoryBarrier.srcAccessMask (pVkBarrier (thsvsGetVulkanImageMemoryBarrier i s d ivk)) =
       OR_over (\<lambda>a. accessMask (access_info a))
         (filter (\<lambda>a. access_ordinal a > access_ordinal THSVS_ACCESS_PRESENT)
            (ThsvsImageBarrier.pPrevAccesses i))
   \<and> pSrcStages (thsvsGetVulkanImageMemoryBarrier i s d ivk) =
       s OR OR_over (\<lambda>a. stageMask (access_info a)) (ThsvsImageBarrier.pPrevAccesses i)
   \<and> thsvsGetVulkanMemoryBarrier
       \<lparr>ThsvsGlobalBarrier.pPrevAccesses = [THSVS_ACCESS_COMPUTE_SHADER_READ_OTHER],
        pNextAccesses = [THSVS_ACCESS_COMPUTE_SHADER_WRITE]\<rparr> 0 0 gvk =
       \<lparr>pSrcStages = VK_PIPELINE_STAGE_COMPUTE_SHADER_BIT,
        pDstStages = VK_PIPELINE_STAGE_COMPUTE_SHADER_BIT,
        pVkBarrier = gvk\<lparr>
          VkMemoryBarrier.sType := VK_STRUCTURE_TYPE_MEMORY_BARRIER,
          VkMemoryBarrier.pNext := NULL,
          VkMemoryBarrier.srcAccessMask := 0,
          VkMemoryBarrier.dstAccessMask := VK_ACCESS_SHADER_WRITE_BIT\<rparr>\<rparr>"
  by (simp add: thsvsGetVulkanMemoryBarrier_eq thsvsGetVulkanBufferMemoryBarrier_eq
        thsvsGetVulkanImageMemoryBarrier_eq access_info_simps)

theorem C1_witness:
  "thsvsGetVulkanMemoryBarrier
     \<lparr>ThsvsGlobalBarrier.pPrevAccesses = [THSVS_ACCESS_COMPUTE_SHADER_READ_OTHER],
      pNextAccesses = [THSVS_ACCESS_COMPUTE_SHADER_WRITE]\<rparr> 0 0
     \<lparr>VkMemoryBarrier.sType = 0, pNext = 0, srcAccessMask = 0, dstAccessMask = 0\<rparr> =
     \<lparr>pSrcStages = 0x800, pDstStages = 0x800,
      pVkBarrier = \<lparr>VkMemoryBarrier.sType = 46, pNext = 0, srcAccessMask = 0, dstAccessMask = 0x40\<rparr>\<rparr>"
  using C1_source_access_excludes_reads
    [where gvk = "\<lparr>VkMemoryBarrier.sType = 0, pNext = 0, srcAccessMask = 0, dstAccessMask = 0\<rparr>"]
  by (simp add: VK_PIPELINE_STAGE_COMPUTE_SHADER_BIT_def VK_ACCESS_SHADER_WRITE_BIT_def
        VK_STRUCTURE_TYPE_MEMORY_BARRIER_def NULL_def)

text \<open>
  C2 as stated: permuting the access lists never changes any component of the output,
  layouts included, with no precondition on the lists. This fails for the layouts: each
  iteration overwrites the layout, so the output carries the layout of the last entry.
  Under \<^verbatim>\<open>THSVS_IMAGE_LAYOUT_OPTIMAL\<close>, the next accesses fragment-shader sampled-image read
  and transfer read give \<^verbatim>\<open>VK_IMAGE_LAYOUT_TRANSFER_SRC_OPTIMAL\<close> in this order and
  \<^verbatim>\<open>VK_IMAGE_LAYOUT_SHADER_READ_ONLY_OPTIMAL\<close> in the other.
\<close>

theorem C2_counterexample:
  "mset [THSVS_ACCESS_TRANSFER_READ, THSVS_ACCESS_FRAGMENT_SHADER_READ_SAMPLED_IMAGE_OR_UNIFORM_TEXEL_BUFFER]
     = mset [THSVS_ACCESS_FRAGMENT_SHADER_READ_SAMPLED_IMAGE_OR_UNIFORM_TEXEL_BUFFER, THSVS_ACCESS_TRANSFER_READ]
   \<and> newLayout (pVkBarrier (thsvsGetVulkanImageMemoryBarrier
        \<lparr>ThsvsImageBarrier.pPrevAccesses = [THSVS_ACCESS_COLOR_ATTACHMENT_WRITE],
         pNextAccesses = [THSVS_ACCESS_FRAGMENT_SHADER_READ_SAMPLED_IMAGE_OR_UNIFORM_TEXEL_BUFFER,
                          THSVS_ACCESS_TRANSFER_READ],
         prevLayout = THSVS_IMAGE_LAYOUT_OPTIMAL, nextLayout = THSVS_IMAGE_LAYOUT_OPTIMAL,
         discardContents = VK_FALSE, srcQueueFamilyIndex = 0, dstQueueFamilyIndex = 0, image = 0,
         subresourceRange = \<lparr>aspectMask = 1, baseMipLevel = 0, levelCount = 1,
                             baseArrayLayer = 0, layerCount = 1\<rparr>\<rparr>
        0 0
        \<lparr>VkImageMemoryBarrier.sType = 0, pNext = 0, srcAccessMask = 0, dstAccessMask = 0,
         oldLayout = 0, newLayout = 0, srcQueueFamilyIndex = 0, dstQueueFamilyIndex = 0, image = 0,
         subresourceRange = \<lparr>aspectMask = 0, baseMipLevel = 0, levelCount = 0,
                             baseArrayLayer = 0, layerCount = 0\<rparr>\<rparr>))
       = VK_IMAGE_LAYOUT_TRANSFER_SRC_OPTIMAL
   \<and> newLayout (pVkBarrier (thsvsGetVulkanImageMemoryBarrier
        \<lparr>ThsvsImageBarrier.pPrevAccesses = [THSVS_ACCESS_COLOR_ATTACHMENT_WRITE],
         pNextAccesses = [THSVS_ACCESS_TRANSFER_READ,
                          THSVS_ACCESS_FRAGMENT_SHADER_READ_SAMPLED_IMAGE_OR_UNIFORM_TEXEL_BUFFER],
         prevLayout = THSVS_IMAGE_LAYOUT_OPTIMAL, nextLayout = THSVS_IMAGE_LAYOUT_OPTIMAL,
         discardContents = VK_FALSE, srcQueueFamilyIndex = 0, dstQueueFamilyIndex = 0, image = 0,
         subresourceRange = \<lparr>aspectMask = 1, baseMipLevel = 0, levelCount = 1,
                             baseArrayLayer = 0, layerCount = 1\<rparr>\<rparr>
        0 0
        \<lparr>VkImageMemoryBarrier.sType = 0, pNext = 0, srcAccessMask = 0, dstAccessMask = 0,
         oldLayout = 0, newLayout = 0, srcQueueFamilyIndex = 0, dstQueueFamilyIndex = 0, image = 0,
         subresourceRange = \<lparr>aspectMask = 0, baseMipLevel = 0, levelCount = 0,
                             baseArrayLayer = 0, layerCount = 0\<rparr>\<rparr>))
       = VK_IMAGE_LAYOUT_SHADER_READ_ONLY_OPTIMAL
   \<and> VK_IMAGE_LAYOUT_TRANSFER_SRC_OPTIMAL \<noteq> VK_IMAGE_LAYOUT_SHADER_READ_ONLY_OPTIMAL"
  by (simp add: thsvsGetVulkanImageMemoryBarrier_def image_prev_body_def image_next_body_def
        access_info_simps Let_def VK_IMAGE_LAYOUT_TRANSFER_SRC_OPTIMAL_def
        VK_IMAGE_LAYOUT_SHADER_READ_ONLY_OPTIMAL_def)

text \<open>
  C2, amended. Permuting the previous or the next accesses never changes the stage masks
  or the access masks of any of the three mapping functions (so the whole output of the
  global and of the buffer function is unchanged). For image barriers the old layout is
  unchanged as well when all previous accesses resolve to one old layout (always so when
  \<^verbatim>\<open>discardContents\<close> is \<^verbatim>\<open>VK_TRUE\<close>), and the new layout when all next accesses resolve to one
  layout under \<^verbatim>\<open>nextLayout\<close>.
\<close>

theorem C2_permutation_invariance_amended:
  assumes "mset prevs' = mset prevs" and "mset nexts' = mset nexts"
  shows
  "thsvsGetVulkanMemoryBarrier
       \<lparr>ThsvsGlobalBarrier.pPrevAccesses = prevs', pNextAccesses = nexts'\<rparr> s d gvk
     = thsvsGetVulkanMemoryBarrier
       \<lparr>ThsvsGlobalBarrier.pPrevAccesses = prevs, pNextAccesses = nexts\<rparr> s d gvk
   \<and> thsvsGetVulkanBufferMemoryBarrier
       (b\<lparr>ThsvsBufferBarrier.pPrevAccesses := prevs', ThsvsBufferBarrier.pNextAccesses := nexts'\<rparr>) s d bvk
     = thsvsGetVulkanBufferMemoryBarrier
       (b\<lparr>ThsvsBufferBarrier.pPrevAccesses := prevs, ThsvsBufferBarrier.pNextAccesses := nexts\<rparr>) s d bvk
   \<and> pSrcStages (thsvsGetVulkanImageMemoryBarrier
        (i\<lparr>ThsvsImageBarrier.pPrevAccesses := prevs', ThsvsImageBarrier.pNextAccesses := nexts'\<rparr>) s d ivk)
     = pSrcStages (thsvsGetVulkanImageMemoryBarrier
        (i\<lparr>ThsvsImageBarrier.pPrevAccesses := prevs, ThsvsImageBarrier.pNextAccesses := nexts\<rparr>) s d ivk)
   \<and> pDstStages (thsvsGetVulkanImageMemoryBarrier
        (i\<lparr>ThsvsImageBarrier.pPrevAccesses := prevs', ThsvsImageBarrier.pNextAccesses := nexts'\<rparr>) s d ivk)
     = pDstStages (thsvsGetVulkanImageMemoryBarrier
        (i\<lparr>ThsvsImageBarrier.pPrevAccesses := prevs, ThsvsImageBarrier.pNextAccesses := nexts\<rparr>) s d ivk)
   \<and> VkImageMemoryBarrier.srcAccessMask (pVkBarrier (thsvsGetVulkanImageMemoryBarrier
        (i\<lparr>ThsvsImageBarrier.pPrevAccesses := prevs', ThsvsImageBarrier.pNextAccesses := nexts'\<rparr>) s d ivk))
     = VkImageMemoryBarrier.srcAccessMask (pVkBarrier (thsvsGetVulkanImageMemoryBarrier
        (i\<lparr>ThsvsImageBarrier.pPrevAccesses := prevs, ThsvsImageBarrier.pNextAccesses := nexts\<rparr>) s d ivk))
   \<and> VkImageMemoryBarrier.dstAccessMask (pVkBarrier (thsvsGetVulkanImageMemoryBarrier
        (i\<lparr>ThsvsImageBarrier.pPrevAccesses := prevs', ThsvsImageBarrier.pNextAccesses := nexts'\<rparr>) s d ivk))
     = VkImageMemoryBarrier.dstAccessMask (pVkBarrier (thsvsGetVulkanImageMemoryBarrier
        (i\<lparr>ThsvsImageBarrier.pPrevAccesses := prevs, ThsvsImageBarrier.pNextAccesses := nexts\<rparr>) s d ivk))
   \<and> ((\<forall>a\<in>set prevs. \<forall>a'\<in>set prevs. old_layout_of i a = old_layout_of i a') \<longrightarrow>
       oldLayout (pVkBarrier (thsvsGetVulkanImageMemoryBarrier
        (i\<lparr>ThsvsImageBarrier.pPrevAccesses := prevs', ThsvsImageBarrier.pNextAccesses := nexts'\<rparr>) s d ivk))
     = oldLayout (pVkBarrier (thsvsGetVulkanImageMemoryBarrier
        (i\<lparr>ThsvsImageBarrier.pPrevAccesses := prevs, ThsvsImageBarrier.pNextAccesses := nexts\<rparr>) s d ivk)))
   \<and> ((\<forall>a\<in>set nexts. \<forall>a'\<in>set nexts.
          mode_layout (nextLayout i) a = mode_layout (nextLayout i) a') \<longrightarrow>
       newLayout (pVkBarrier (thsvsGetVulkanImageMemoryBarrier
        (i\<lparr>ThsvsImageBarrier.pPrevAccesses := prevs', ThsvsImageBarrier.pNextAccesses := nexts'\<rparr>) s d ivk))
     = newLayout (pVkBarrier (thsvsGetVulkanImageMemoryBarrier
        (i\<lparr>ThsvsImageBarrier.pPrevAccesses := prevs, ThsvsImageBarrier.pNextAccesses := nexts\<rparr>) s d ivk)))"
proof (intro conjI impI)
  show "thsvsGetVulkanMemoryBarrier
       \<lparr>ThsvsGlobalBarrier.pPrevAccesses = prevs', pNextAccesses = nexts'\<rparr> s d gvk
     = thsvsGetVulkanMemoryBarrier
       \<lparr>ThsvsGlobalBarrier.pPrevAccesses = prevs, pNextAccesses = nexts\<rparr> s d gvk"
    by (rule memory_barrier_perm[OF assms])
qed (rule buffer_barrier_perm[OF assms] image_barrier_perm_masks[OF assms]
       image_barrier_perm_layouts[OF assms], assumption?)+

theorem C2_witness:
  "thsvsGetVulkanImageMemoryBarrier
     \<lparr>ThsvsImageBarrier.pPrevAccesses =
        [THSVS_ACCESS_FRAGMENT_SHADER_READ_SAMPLED_IMAGE_OR_UNIFORM_TEXEL_BUFFER, THSVS_ACCESS_TRANSFER_READ],
      pNextAccesses = [THSVS_ACCESS_COMPUTE_SHADER_WRITE],
      prevLayout = THSVS_IMAGE_LAYOUT_GENERAL, nextLayout = THSVS_IMAGE_LAYOUT_OPTIMAL,
      discardContents = 0, srcQueueFamilyIndex = 0, dstQueueFamilyIndex = 0, image = 0,
      subresourceRange = \<lparr>aspectMask = 1, baseMipLevel = 0, levelCount = 1,
                          baseArrayLayer = 0, layerCount = 1\<rparr>\<rparr>
     0 0
     \<lparr>VkImageMemoryBarrier.sType = 0, pNext = 0, srcAccessMask = 0, dstAccessMask = 0,
      oldLayout = 0, newLayout = 0, srcQueueFamilyIndex = 0, dstQueueFamilyIndex = 0, image = 0,
      subresourceRange = \<lparr>aspectMask = 0, baseMipLevel = 0, levelCount = 0,
                          baseArrayLayer = 0, layerCount = 0\<rparr>\<rparr>
   = thsvsGetVulkanImageMemoryBarrier
     \<lparr>ThsvsImageBarrier.pPrevAccesses =
        [THSVS_ACCESS_TRANSFER_READ, THSVS_ACCESS_FRAGMENT_SHADER_READ_SAMPLED_IMAGE_OR_UNIFORM_TEXEL_BUFFER],
      pNextAccesses = [THSVS_ACCESS_COMPUTE_SHADER_WRITE],
      prevLayout = THSVS_IMAGE_LAYOUT_GENERAL, nextLayout = THSVS_IMAGE_LAYOUT_OPTIMAL,
      discardContents = 0, srcQueueFamilyIndex = 0, dstQueueFamilyIndex = 0, image = 0,
      subresourceRange = \<lparr>aspectMask = 1, baseMipLevel = 0, levelCount = 1,
                          baseArrayLayer = 0, layerCount = 1\<rparr>\<rparr>
     0 0
     \<lparr>VkImageMemoryBarrier.sType = 0, pNext = 0, srcAccessMask = 0, dstAccessMask = 0,
      oldLayout = 0, newLayout = 0, srcQueueFamilyIndex = 0, dstQueueFamilyIndex = 0, image = 0,
      subresourceRange = \<lparr>aspectMask = 0, baseMipLevel = 0, levelCount = 0,
                          baseArrayLayer = 0, layerCount = 0\<rparr>\<rparr>"
proof -
  let ?A = THSVS_ACCESS_FRAGMENT_SHADER_READ_SAMPLED_IMAGE_OR_UNIFORM_TEXEL_BUFFER
  let ?B = THSVS_ACCESS_TRANSFER_READ
  let ?C = THSVS_ACCESS_COMPUTE_SHADER_WRITE
  let ?i = "\<lparr>ThsvsImageBarrier.pPrevAccesses = [], pNextAccesses = [],
      prevLayout = THSVS_IMAGE_LAYOUT_GENERAL, nextLayout = THSVS_IMAGE_LAYOUT_OPTIMAL,
      discardContents = 0, srcQueueFamilyIndex = 0, dstQueueFamilyIndex = 0, image = 0,
      subresourceRange = \<lparr>aspectMask = 1, baseMipLevel = 0, levelCount = 1,
                          baseArrayLayer = 0, layerCount = 1\<rparr>\<rparr>"
  let ?vk = "\<lparr>VkImageMemoryBarrier.sType = 0, pNext = 0, srcAccessMask = 0, dstAccessMask = 0,
      oldLayout = 0, newLayout = 0, srcQueueFamilyIndex = 0, dstQueueFamilyIndex = 0, image = 0,
      subresourceRange = \<lparr>aspectMask = 0, baseMipLevel = 0, levelCount = 0,
                          baseArrayLayer = 0, layerCount = 0\<rparr>\<rparr>"
  let ?o1 = "thsvsGetVulkanImageMemoryBarrier
      (?i\<lparr>ThsvsImageBarrier.pPrevAccesses := [?A, ?B], ThsvsImageBarrier.pNextAccesses := [?C]\<rparr>) 0 0 ?vk"
  let ?o2 = "thsvsGetVulkanImageMemoryBarrier
      (?i\<lparr>ThsvsImageBarrier.pPrevAccesses := [?B, ?A], ThsvsImageBarrier.pNextAccesses := [?C]\<rparr>) 0 0 ?vk"
  have p: "mset [?A, ?B] = mset [?B, ?A]" and n: "mset [?C] = mset [?C]"
    by simp_all
  have co: "\<forall>a\<in>set [?B, ?A]. \<forall>a'\<in>set [?B, ?A]. old_layout_of ?i a = old_layout_of ?i a'"
    by (simp add: old_layout_of_def mode_layout_def)
  have cn: "\<forall>a\<in>set [?C]. \<forall>a'\<in>set [?C]. mode_layout (nextLayout ?i) a = mode_layout (nextLayout ?i) a'"
    by simp
  note c2 = C2_permutation_invariance_amended[OF p n, where i = ?i and ivk = ?vk and s = 0 and d = 0]
  from c2 co cn have fields:
    "pSrcStages ?o1 = pSrcStages ?o2" "pDstStages ?o1 = pDstStages ?o2"
    "VkImageMemoryBarrier.srcAccessMask (pVkBarrier ?o1) = VkImageMemoryBarrier.srcAccessMask (pVkBarrier ?o2)"
    "VkImageMemoryBarrier.dstAccessMask (pVkBarrier ?o1) = VkImageMemoryBarrier.dstAccessMask (pVkBarrier ?o2)"
    "oldLayout (pVkBarrier ?o1) = oldLayout (pVkBarrier ?o2)"
    "newLayout (pVkBarrier ?o1) = newLayout (pVkBarrier ?o2)"
    by blast+
  have rest:
    "VkImageMemoryBarrier.sType (pVkBarrier ?o1) = VkImageMemoryBarrier.sType (pVkBarrier ?o2)"
    "VkImageMemoryBarrier.pNext (pVkBarrier ?o1) = VkImageMemoryBarrier.pNext (pVkBarrier ?o2)"
    "VkImageMemoryBarrier.srcQueueFamilyIndex (pVkBarrier ?o1) = VkImageMemoryBarrier.srcQueueFamilyIndex (pVkBarrier ?o2)"
    "VkImageMemoryBarrier.dstQueueFamilyIndex (pVkBarrier ?o1) = VkImageMemoryBarrier.dstQueueFamilyIndex (pVkBarrier ?o2)"
    "VkImageMemoryBarrier.image (pVkBarrier ?o1) = VkImageMemoryBarrier.image (pVkBarrier ?o2)"
    "VkImageMemoryBarrier.subresourceRange (pVkBarrier ?o1) = VkImageMemoryBarrier.subresourceRange (pVkBarrier ?o2)"
    by (simp_all add: thsvsGetVulkanImageMemoryBarrier_eq)
  have "pVkBarrier ?o1 = pVkBarrier ?o2"
    using fields(3-6) rest by (intro VkImageMemoryBarrier.equality) simp_all
  then have "?o1 = ?o2"
    using fields(1,2) by (intro outputs.equality) simp_all
  then show ?thesis by simp
qed

text \<open>
  C3. Destination side of the three mapping functions. The destination access mask is
  the OR of the registry access masks over all next accesses, reads and writes alike, and
  the destination stage mask is the caller's value ORed with their stage masks (exactly
  their OR when the caller's value is zero). In particular, from zeroed stage masks, a
  previous compute-shader write followed by an index-buffer read and a compute-shader
  uniform-buffer read gives destination stages vertex-input | compute-shader and
  destination access index-read | uniform-read.
\<close>

theorem C3_destination_masks_unfiltered:
  "VkMemoryBarrier.dstAccessMask (pVkBarrier (thsvsGetVulkanMemoryBarrier g s d gvk)) =
     OR_over (\<lambda>a. accessMask (access_info a)) (ThsvsGlobalBarrier.pNextAccesses g)
   \<and> pDstStages (thsvsGetVulkanMemoryBarrier g s d gvk) =
       d OR OR_over (\<lambda>a. stageMask (access_info a)) (ThsvsGlobalBarrier.pNextAccesses g)
   \<and> pDstStages (thsvsGetVulkanMemoryBarrier g s 0 gvk) =
       OR_over (\<lambda>a. stageMask (access_info a)) (ThsvsGlobalBarrier.pNextAccesses g)
   \<and> VkBufferMemoryBarrier.dstAccessMask (pVkBarrier (thsvsGetVulkanBufferMemoryBarrier b s d bvk)) =
       OR_over (\<lambda>a. accessMask (access_info a)) (ThsvsBufferBarrier.pNextAccesses b)
   \<and> pDstStages (thsvsGetVulkanBufferMemoryBarrier b s d bvk) =
       d OR OR_over (\<lambda>a. stageMask (access_info a)) (ThsvsBufferBarrier.pNextAccesses b)
   \<and> VkImageMemoryBarrier.dstAccessMask (pVkBarrier (thsvsGetVulkanImageMemoryBarrier i s d ivk)) =
       OR_over (\<lambda>a. accessMask (access_info a)) (ThsvsImageBarrier.pNextAccesses i)
   \<and> pDstStages (thsvsGetVulkanImageMemoryBarrier i s d ivk) =
       d OR OR_over (\<lambda>a. stageMask (access_info a)) (ThsvsImageBarrier.pNextAccesses i)
   \<and> thsvsGetVulkanMemoryBarrier
       \<lparr>ThsvsGlobalBarrier.pPrevAccesses = [THSVS_ACCESS_COMPUTE_SHADER_WRITE],
        pNextAccesses = [THSVS_ACCESS_INDEX_BUFFER, THSVS_ACCESS_COMPUTE_SHADER_READ_UNIFORM_BUFFER]\<rparr>
       0 0 gvk =
       \<lparr>pSrcStages = VK_PIPELINE_STAGE_COMPUTE_SHADER_BIT,
        pDstStages = VK_PIPELINE_STAGE_VERTEX_INPUT_BIT OR VK_PIPELINE_STAGE_COMPUTE_SHADER_BIT,
        pVkBarrier = gvk\<lparr>
          VkMemoryBarrier.sType := VK_STRUCTURE_TYPE_MEMORY_BARRIER,
          VkMemoryBarrier.pNext := NULL,
          VkMemoryBarrier.srcAccessMask := VK_ACCESS_SHADER_WRITE_BIT,
          VkMemoryBarrier.dstAccessMask := VK_ACCESS_INDEX_READ_BIT OR VK_ACCESS_UNIFORM_READ_BIT\<rparr>\<rparr>"
  by (simp add: thsvsGetVulkanMemoryBarrier_eq thsvsGetVulkanBufferMemoryBarrier_eq
        thsvsGetVulkanImageMemoryBarrier_eq access_info_simps)

theorem C3_witness:
  "thsvsGetVulkanMemoryBarrier
     \<lparr>ThsvsGlobalBarrier.pPrevAccesses = [THSVS_ACCESS_COMPUTE_SHADER_WRITE],
      pNextAccesses = [THSVS_ACCESS_INDEX_BUFFER, THSVS_ACCESS_COMPUTE_SHADER_READ_UNIFORM_BUFFER]\<rparr>
     0 0
     \<lparr>VkMemoryBarrier.sType = 0, pNext = 0, srcAccessMask = 0, dstAccessMask = 0\<rparr> =
     \<lparr>pSrcStages = 0x800, pDstStages = 0x804,
      pVkBarrier = \<lparr>VkMemoryBarrier.sType = 46, pNext = 0, srcAccessMask = 0x40, dstAccessMask = 0xA\<rparr>\<rparr>"
  using C3_destination_masks_unfiltered
    [where gvk = "\<lparr>VkMemoryBarrier.sType = 0, pNext = 0, srcAccessMask = 0, dstAccessMask = 0\<rparr>"]
  by (simp add: VK_PIPELINE_STAGE_COMPUTE_SHADER_BIT_def VK_PIPELINE_STAGE_VERTEX_INPUT_BIT_def
        VK_ACCESS_SHADER_WRITE_BIT_def VK_ACCESS_INDEX_READ_BIT_def VK_ACCESS_UNIFORM_READ_BIT_def
        VK_STRUCTURE_TYPE_MEMORY_BARRIER_def NULL_def)

text \<open>
  C4. Layout modes of the image mapping function. Each next access processed sets the
  new layout: under \<^verbatim>\<open>THSVS_IMAGE_LAYOUT_GENERAL\<close> to \<^verbatim>\<open>VK_IMAGE_LAYOUT_GENERAL\<close>, unless
  the access is \<^verbatim>\<open>THSVS_ACCESS_PRESENT\<close>, then to \<^verbatim>\<open>VK_IMAGE_LAYOUT_PRESENT_SRC_KHR\<close>; under
  \<^verbatim>\<open>THSVS_IMAGE_LAYOUT_GENERAL_AND_PRESENTATION\<close> to \<^verbatim>\<open>VK_IMAGE_LAYOUT_SHARED_PRESENT_KHR\<close>
  whatever the access; under \<^verbatim>\<open>THSVS_IMAGE_LAYOUT_OPTIMAL\<close> to the registry layout of the
  access. Each previous access processed sets the old layout by the same rule when
  \<^verbatim>\<open>discardContents\<close> is not \<^verbatim>\<open>VK_TRUE\<close>. The statement is given for one iteration of
  each loop and for the whole function, whose result is that of the last access.
\<close>

theorem C4_layout_modes:
  "newLayout (snd (image_next_body (th\<lparr>nextLayout := THSVS_IMAGE_LAYOUT_GENERAL\<rparr>) a d vk)) =
     (if a = THSVS_ACCESS_PRESENT then VK_IMAGE_LAYOUT_PRESENT_SRC_KHR else VK_IMAGE_LAYOUT_GENERAL)
   \<and> newLayout (snd (image_next_body (th\<lparr>nextLayout := THSVS_IMAGE_LAYOUT_GENERAL_AND_PRESENTATION\<rparr>) a d vk)) =
       VK_IMAGE_LAYOUT_SHARED_PRESENT_KHR
   \<and> newLayout (snd (image_next_body (th\<lparr>nextLayout := THSVS_IMAGE_LAYOUT_OPTIMAL\<rparr>) a d vk)) =
       imageLayout (ThsvsAccessMap ! access_ordinal a)
   \<and> oldLayout (snd (image_prev_body (th\<lparr>prevLayout := THSVS_IMAGE_LAYOUT_GENERAL\<rparr>) a s vk)) =
       (if discardContents th = VK_TRUE then VK_IMAGE_LAYOUT_UNDEFINED
        else if a = THSVS_ACCESS_PRESENT then VK_IMAGE_LAYOUT_PRESENT_SRC_KHR
        else VK_IMAGE_LAYOUT_GENERAL)
   \<and> oldLayout (snd (image_prev_body (th\<lparr>prevLayout := THSVS_IMAGE_LAYOUT_GENERAL_AND_PRESENTATION\<rparr>) a s vk)) =
       (if discardContents th = VK_TRUE then VK_IMAGE_LAYOUT_UNDEFINED
        else VK_IMAGE_LAYOUT_SHARED_PRESENT_KHR)
   \<and> oldLayout (snd (image_prev_body (th\<lparr>prevLayout := THSVS_IMAGE_LAYOUT_OPTIMAL\<rparr>) a s vk)) =
       (if discardContents th = VK_TRUE then VK_IMAGE_LAYOUT_UNDEFINED
        else imageLayout (ThsvsAccessMap ! access_ordinal a))
   \<and> newLayout (pVkBarrier (thsvsGetVulkanImageMemoryBarrier
        (th\<lparr>ThsvsImageBarrier.pNextAccesses := as @ [a], nextLayout := THSVS_IMAGE_LAYOUT_GENERAL\<rparr>) s d vk)) =
       (if a = THSVS_ACCESS_PRESENT then VK_IMAGE_LAYOUT_PRESENT_SRC_KHR else VK_IMAGE_LAYOUT_GENERAL)
   \<and> newLayout (pVkBarrier (thsvsGetVulkanImageMemoryBarrier
        (th\<lparr>ThsvsImageBarrier.pNextAccesses := as @ [a],
            nextLayout := THSVS_IMAGE_LAYOUT_GENERAL_AND_PRESENTATION\<rparr>) s d vk)) =
       VK_IMAGE_LAYOUT_SHARED_PRESENT_KHR
   \<and> newLayout (pVkBarrier (thsvsGetVulkanImageMemoryBarrier
        (th\<lparr>ThsvsImageBarrier.pNextAccesses := as @ [a], nextLayout := THSVS_IMAGE_LAYOUT_OPTIMAL\<rparr>) s d vk)) =
       imageLayout (ThsvsAccessMap ! access_ordinal a)
   \<and> oldLayout (pVkBarrier (thsvsGetVulkanImageMemoryBarrier
        (th\<lparr>ThsvsImageBarrier.pPrevAccesses := as @ [a], prevLayout := THSVS_IMAGE_LAYOUT_GENERAL\<rparr>) s d vk)) =
       (if discardContents th = VK_TRUE then VK_IMAGE_LAYOUT_UNDEFINED
        else if a = THSVS_ACCESS_PRESENT then VK_IMAGE_LAYOUT_PRESENT_SRC_KHR
        else VK_IMAGE_LAYOUT_GENERAL)
   \<and> oldLayout (pVkBarrier (thsvsGetVulkanImageMemoryBarrier
        (th\<lparr>ThsvsImageBarrier.pPrevAccesses := as @ [a],
            prevLayout := THSVS_IMAGE_LAYOUT_GENERAL_AND_PRESENTATION\<rparr>) s d vk)) =
       (if discardContents th = VK_TRUE then VK_IMAGE_LAYOUT_UNDEFINED
        else VK_IMAGE_LAYOUT_SHARED_PRESENT_KHR)
   \<and> oldLayout (pVkBarrier (thsvsGetVulkanImageMemoryBarrier
        (th\<lparr>ThsvsImageBarrier.pPrevAccesses := as @ [a], prevLayout := THSVS_IMAGE_LAYOUT_OPTIMAL\<rparr>) s d vk)) =
       (if discardContents th = VK_TRUE then VK_IMAGE_LAYOUT_UNDEFINED
        else imageLayout (ThsvsAccessMap ! access_ordinal a))"
  by (simp add: thsvsGetVulkanImageMemoryBarrier_eq image_prev_body_eq image_next_body_eq
        old_layout_of_def mode_layout_def access_info_def)

theorem C4_witness:
  "newLayout (pVkBarrier (thsvsGetVulkanImageMemoryBarrier
     \<lparr>ThsvsImageBarrier.pPrevAccesses = [THSVS_ACCESS_COLOR_ATTACHMENT_WRITE],
      pNextAccesses = [THSVS_ACCESS_PRESENT],
      prevLayout = THSVS_IMAGE_LAYOUT_OPTIMAL, nextLayout = THSVS_IMAGE_LAYOUT_GENERAL,
      discardContents = 0, srcQueueFamilyIndex = 0, dstQueueFamilyIndex = 0, image = 0,
      subresourceRange = \<lparr>aspectMask = 1, baseMipLevel = 0, levelCount = 1,
                          baseArrayLayer = 0, layerCount = 1\<rparr>\<rparr>
     0 0
     \<lparr>VkImageMemoryBarrier.sType = 0, pNext = 0, srcAccessMask = 0, dstAccessMask = 0,
      oldLayout = 0, newLayout = 0, srcQueueFamilyIndex = 0, dstQueueFamilyIndex = 0, image = 0,
      subresourceRange = \<lparr>aspectMask = 0, baseMipLevel = 0, levelCount = 0,
                          baseArrayLayer = 0, layerCount = 0\<rparr>\<rparr>))
     = 1000001002"
  using C4_layout_modes
    [where th = "\<lparr>ThsvsImageBarrier.pPrevAccesses = [THSVS_ACCESS_COLOR_ATTACHMENT_WRITE],
        pNextAccesses = [THSVS_ACCESS_PRESENT],
        prevLayout = THSVS_IMAGE_LAYOUT_OPTIMAL, nextLayout = THSVS_IMAGE_LAYOUT_GENERAL,
        discardContents = 0, srcQueueFamilyIndex = 0, dstQueueFamilyIndex = 0, image = 0,
        subresourceRange = \<lparr>aspectMask = 1, baseMipLevel = 0, levelCount = 1,
                            baseArrayLayer = 0, layerCount = 1\<rparr>\<rparr>"
      and a = THSVS_ACCESS_PRESENT and as = "[]" and s = 0 and d = 0
      and vk = "\<lparr>VkImageMemoryBarrier.sType = 0, pNext = 0, srcAccessMask = 0, dstAccessMask = 0,
        oldLayout = 0, newLayout = 0, srcQueueFamilyIndex = 0, dstQueueFamilyIndex = 0, image = 0,
        subresourceRange = \<lparr>aspectMask = 0, baseMipLevel = 0, levelCount = 0,
                            baseArrayLayer = 0, layerCount = 0\<rparr>\<rparr>"]
  by (simp add: VK_IMAGE_LAYOUT_PRESENT_SRC_KHR_def)

text \<open>
  C5. Discard rule. For an image barrier with at least one previous access and
  \<^verbatim>\<open>discardContents\<close> equal to \<^verbatim>\<open>VK_TRUE\<close>, the old layout of the output is
  \<^verbatim>\<open>VK_IMAGE_LAYOUT_UNDEFINED\<close>, for every previous layout mode and every list of previous
  accesses.
\<close>

theorem C5_discard_forces_undefined:
  "ThsvsImageBarrier.pPrevAccesses th \<noteq> [] \<Longrightarrow> discardContents th = VK_TRUE \<Longrightarrow>
     oldLayout (pVkBarrier (thsvsGetVulkanImageMemoryBarrier th s d vk)) = VK_IMAGE_LAYOUT_UNDEFINED"
  by (simp add: thsvsGetVulkanImageMemoryBarrier_eq old_layout_of_def)

theorem C5_witness:
  "oldLayout (pVkBarrier (thsvsGetVulkanImageMemoryBarrier
     \<lparr>ThsvsImageBarrier.pPrevAccesses = [THSVS_ACCESS_COLOR_ATTACHMENT_WRITE, THSVS_ACCESS_PRESENT],
      pNextAccesses = [THSVS_ACCESS_TRANSFER_WRITE],
      prevLayout = THSVS_IMAGE_LAYOUT_GENERAL, nextLayout = THSVS_IMAGE_LAYOUT_OPTIMAL,
      discardContents = 1, srcQueueFamilyIndex = 0, dstQueueFamilyIndex = 0, image = 0,
      subresourceRange = \<lparr>aspectMask = 1, baseMipLevel = 0, levelCount = 1,
                          baseArrayLayer = 0, layerCount = 1\<rparr>\<rparr>
     0 0
     \<lparr>VkImageMemoryBarrier.sType = 0, pNext = 0, srcAccessMask = 0, dstAccessMask = 0,
      oldLayout = 7, newLayout = 7, srcQueueFamilyIndex = 0, dstQueueFamilyIndex = 0, image = 0,
      subresourceRange = \<lparr>aspectMask = 0, baseMipLevel = 0, levelCount = 0,
                          baseArrayLayer = 0, layerCount = 0\<rparr>\<rparr>))
     = 0"
  using C5_discard_forces_undefined
    [of "\<lparr>ThsvsImageBarrier.pPrevAccesses = [THSVS_ACCESS_COLOR_ATTACHMENT_WRITE, THSVS_ACCESS_PRESENT],
        pNextAccesses = [THSVS_ACCESS_TRANSFER_WRITE],
        prevLayout = THSVS_IMAGE_LAYOUT_GENERAL, nextLayout = THSVS_IMAGE_LAYOUT_OPTIMAL,
        discardContents = 1, srcQueueFamilyIndex = 0, dstQueueFamilyIndex = 0, image = 0,
        subresourceRange = \<lparr>aspectMask = 1, baseMipLevel = 0, levelCount = 1,
                            baseArrayLayer = 0, layerCount = 1\<rparr>\<rparr>"
      0 0
      "\<lparr>VkImageMemoryBarrier.sType = 0, pNext = 0, srcAccessMask = 0, dstAccessMask = 0,
        oldLayout = 7, newLayout = 7, srcQueueFamilyIndex = 0, dstQueueFamilyIndex = 0, image = 0,
        subresourceRange = \<lparr>aspectMask = 0, baseMipLevel = 0, levelCount = 0,
                            baseArrayLayer = 0, layerCount = 0\<rparr>\<rparr>"]
  by (simp add: VK_TRUE_def VK_IMAGE_LAYOUT_UNDEFINED_def)

text \<open>
  C6. No defaults from the mapping function. For a global barrier with no previous and
  no next access, the output has source and destination access masks 0, and the stage
  masks the caller supplied are returned unchanged.
\<close>

theorem C6_empty_lists_no_defaults:
  "ThsvsGlobalBarrier.pPrevAccesses g = [] \<Longrightarrow> ThsvsGlobalBarrier.pNextAccesses g = [] \<Longrightarrow>
     VkMemoryBarrier.srcAccessMask (pVkBarrier (thsvsGetVulkanMemoryBarrier g s d vk)) = 0
     \<and> VkMemoryBarrier.dstAccessMask (pVkBarrier (thsvsGetVulkanMemoryBarrier g s d vk)) = 0
     \<and> pSrcStages (thsvsGetVulkanMemoryBarrier g s d vk) = s
     \<and> pDstStages (thsvsGetVulkanMemoryBarrier g s d vk) = d"
  by (simp add: thsvsGetVulkanMemoryBarrier_eq)

theorem C6_witness:
  "VkMemoryBarrier.srcAccessMask (pVkBarrier (thsvsGetVulkanMemoryBarrier
       \<lparr>ThsvsGlobalBarrier.pPrevAccesses = [], pNextAccesses = []\<rparr> 0x80 0x1000
       \<lparr>VkMemoryBarrier.sType = 0, pNext = 5, srcAccessMask = 0xFF, dstAccessMask = 0xFF\<rparr>)) = 0
   \<and> VkMemoryBarrier.dstAccessMask (pVkBarrier (thsvsGetVulkanMemoryBarrier
       \<lparr>ThsvsGlobalBarrier.pPrevAccesses = [], pNextAccesses = []\<rparr> 0x80 0x1000
       \<lparr>VkMemoryBarrier.sType = 0, pNext = 5, srcAccessMask = 0xFF, dstAccessMask = 0xFF\<rparr>)) = 0
   \<and> pSrcStages (thsvsGetVulkanMemoryBarrier
       \<lparr>ThsvsGlobalBarrier.pPrevAccesses = [], pNextAccesses = []\<rparr> 0x80 0x1000
       \<lparr>VkMemoryBarrier.sType = 0, pNext = 5, srcAccessMask = 0xFF, dstAccessMask = 0xFF\<rparr>) = 0x80
   \<and> pDstStages (thsvsGetVulkanMemoryBarrier
       \<lparr>ThsvsGlobalBarrier.pPrevAccesses = [], pNextAccesses = []\<rparr> 0x80 0x1000
       \<lparr>VkMemoryBarrier.sType = 0, pNext = 5, srcAccessMask = 0xFF, dstAccessMask = 0xFF\<rparr>) = 0x1000"
  by (rule C6_empty_lists_no_defaults) simp_all

text \<open>
  C7. Hazard check. In the build with \<^verbatim>\<open>THSVS_ERROR_CHECK_POTENTIAL_HAZARD\<close> defined, each
  of the three mapping functions halts on a failed assertion exactly when the list of
  previous accesses or the list of next accesses has more than one entry and contains an
  entry whose ordinal is greater than that of \<^verbatim>\<open>THSVS_ACCESS_PRESENT\<close>. Lists of read-class
  entries only and lists of one entry of any class never halt. There is no third outcome:
  a call that does not halt returns the complete result of the default build.
\<close>

theorem C7_hazard_assertion:
  "(thsvsGetVulkanMemoryBarrier_hazard g s d gvk = None) =
     (hazardous (ThsvsGlobalBarrier.pPrevAccesses g) \<or> hazardous (ThsvsGlobalBarrier.pNextAccesses g))
   \<and> (thsvsGetVulkanBufferMemoryBarrier_hazard b s d bvk = None) =
       (hazardous (ThsvsBufferBarrier.pPrevAccesses b) \<or> hazardous (ThsvsBufferBarrier.pNextAccesses b))
   \<and> (thsvsGetVulkanImageMemoryBarrier_hazard i s d ivk = None) =
       (hazardous (ThsvsImageBarrier.pPrevAccesses i) \<or> hazardous (ThsvsImageBarrier.pNextAccesses i))
   \<and> thsvsGetVulkanMemoryBarrier_hazard g s d gvk =
       (if hazardous (ThsvsGlobalBarrier.pPrevAccesses g) \<or> hazardous (ThsvsGlobalBarrier.pNextAccesses g)
        then None else Some (thsvsGetVulkanMemoryBarrier g s d gvk))
   \<and> thsvsGetVulkanBufferMemoryBarrier_hazard b s d bvk =
       (if hazardous (ThsvsBufferBarrier.pPrevAccesses b) \<or> hazardous (ThsvsBufferBarrier.pNextAccesses b)
        then None else Some (thsvsGetVulkanBufferMemoryBarrier b s d bvk))
   \<and> thsvsGetVulkanImageMemoryBarrier_hazard i s d ivk =
       (if hazardous (ThsvsImageBarrier.pPrevAccesses i) \<or> hazardous (ThsvsImageBarrier.pNextAccesses i)
        then None else Some (thsvsGetVulkanImageMemoryBarrier i s d ivk))
   \<and> ((\<forall>a \<in> set xs. read_class a) \<longrightarrow> \<not> hazardous xs)
   \<and> \<not> hazardous [a]"
  by (auto simp: thsvsGetVulkanMemoryBarrier_hazard_eq thsvsGetVulkanBufferMemoryBarrier_hazard_eq
        thsvsGetVulkanImageMemoryBarrier_hazard_eq hazardous_def read_class_def)

theorem C7_witness:
  "thsvsGetVulkanMemoryBarrier_hazard
     \<lparr>ThsvsGlobalBarrier.pPrevAccesses = [THSVS_ACCESS_COMPUTE_SHADER_WRITE, THSVS_ACCESS_TRANSFER_READ],
      pNextAccesses = [THSVS_ACCESS_INDEX_BUFFER]\<rparr> 0 0
     \<lparr>VkMemoryBarrier.sType = 0, pNext = 0, srcAccessMask = 0, dstAccessMask = 0\<rparr> = None
   \<and> thsvsGetVulkanBufferMemoryBarrier_hazard
     \<lparr>ThsvsBufferBarrier.pPrevAccesses = [THSVS_ACCESS_COMPUTE_SHADER_WRITE],
      pNextAccesses = [THSVS_ACCESS_INDEX_BUFFER, THSVS_ACCESS_COMPUTE_SHADER_READ_UNIFORM_BUFFER],
      srcQueueFamilyIndex = 1, dstQueueFamilyIndex = 2, buffer = 3, offset = 0, size_field = 16\<rparr> 0 0
     \<lparr>VkBufferMemoryBarrier.sType = 0, pNext = 0, srcAccessMask = 0, dstAccessMask = 0,
      srcQueueFamilyIndex = 0, dstQueueFamilyIndex = 0, buffer = 0, offset = 0, size_field = 0\<rparr> \<noteq> None
   \<and> \<not> hazardous [THSVS_ACCESS_INDEX_BUFFER, THSVS_ACCESS_COMPUTE_SHADER_READ_UNIFORM_BUFFER]"
proof -
  note c7 = C7_hazard_assertion
    [where g = "\<lparr>ThsvsGlobalBarrier.pPrevAccesses =
          [THSVS_ACCESS_COMPUTE_SHADER_WRITE, THSVS_ACCESS_TRANSFER_READ],
        pNextAccesses = [THSVS_ACCESS_INDEX_BUFFER]\<rparr>"
      and b = "\<lparr>ThsvsBufferBarrier.pPrevAccesses = [THSVS_ACCESS_COMPUTE_SHADER_WRITE],
        pNextAccesses = [THSVS_ACCESS_INDEX_BUFFER, THSVS_ACCESS_COMPUTE_SHADER_READ_UNIFORM_BUFFER],
        srcQueueFamilyIndex = 1, dstQueueFamilyIndex = 2, buffer = 3, offset = 0, size_field = 16\<rparr>"
      and s = 0 and d = 0
      and gvk = "\<lparr>VkMemoryBarrier.sType = 0, pNext = 0, srcAccessMask = 0, dstAccessMask = 0\<rparr>"
      and bvk = "\<lparr>VkBufferMemoryBarrier.sType = 0, pNext = 0, srcAccessMask = 0, dstAccessMask = 0,
        srcQueueFamilyIndex = 0, dstQueueFamilyIndex = 0, buffer = 0, offset = 0, size_field = 0\<rparr>"
      and xs = "[THSVS_ACCESS_INDEX_BUFFER, THSVS_ACCESS_COMPUTE_SHADER_READ_UNIFORM_BUFFER]"]
  have reads: "\<forall>a \<in> set [THSVS_ACCESS_INDEX_BUFFER, THSVS_ACCESS_COMPUTE_SHADER_READ_UNIFORM_BUFFER].
      read_class a"
    by (simp add: read_class_def)
  have halts: "hazardous [THSVS_ACCESS_COMPUTE_SHADER_WRITE, THSVS_ACCESS_TRANSFER_READ]"
    by (simp add: hazardous_def)
  have single: "\<not> hazardous [THSVS_ACCESS_COMPUTE_SHADER_WRITE]"
    by (simp add: hazardous_def)
  note reads_quiet = c7 [THEN conjunct2, THEN conjunct2, THEN conjunct2, THEN conjunct2,
    THEN conjunct2, THEN conjunct2, THEN conjunct1]
  have quiet:
    "\<not> hazardous [THSVS_ACCESS_INDEX_BUFFER, THSVS_ACCESS_COMPUTE_SHADER_READ_UNIFORM_BUFFER]"
    using reads by (rule reads_quiet [THEN mp])
  from c7 halts single quiet show ?thesis
    by simp
qed

text \<open>
  C8. Opaque fields. The buffer mapping function copies \<^verbatim>\<open>srcQueueFamilyIndex\<close>,
  \<^verbatim>\<open>dstQueueFamilyIndex\<close>, \<^verbatim>\<open>buffer\<close>, \<^verbatim>\<open>offset\<close> and \<^verbatim>\<open>size\<close> of the barrier description
  unmodified into the output, and the image mapping function \<^verbatim>\<open>srcQueueFamilyIndex\<close>,
  \<^verbatim>\<open>dstQueueFamilyIndex\<close>, \<^verbatim>\<open>image\<close> and \<^verbatim>\<open>subresourceRange\<close>, whatever the access lists.
\<close>

theorem C8_opaque_fields_passed_through:
  "VkBufferMemoryBarrier.srcQueueFamilyIndex (pVkBarrier (thsvsGetVulkanBufferMemoryBarrier b s d bvk)) =
     ThsvsBufferBarrier.srcQueueFamilyIndex b
   \<and> VkBufferMemoryBarrier.dstQueueFamilyIndex (pVkBarrier (thsvsGetVulkanBufferMemoryBarrier b s d bvk)) =
       ThsvsBufferBarrier.dstQueueFamilyIndex b
   \<and> VkBufferMemoryBarrier.buffer (pVkBarrier (thsvsGetVulkanBufferMemoryBarrier b s d bvk)) =
       ThsvsBufferBarrier.buffer b
   \<and> VkBufferMemoryBarrier.offset (pVkBarrier (thsvsGetVulkanBufferMemoryBarrier b s d bvk)) =
       ThsvsBufferBarrier.offset b
   \<and> VkBufferMemoryBarrier.size_field (pVkBarrier (thsvsGetVulkanBufferMemoryBarrier b s d bvk)) =
       ThsvsBufferBarrier.size_field b
   \<and> VkImageMemoryBarrier.srcQueueFamilyIndex (pVkBarrier (thsvsGetVulkanImageMemoryBarrier i s d ivk)) =
       ThsvsImageBarrier.srcQueueFamilyIndex i
   \<and> VkImageMemoryBarrier.dstQueueFamilyIndex (pVkBarrier (thsvsGetVulkanImageMemoryBarrier i s d ivk)) =
       ThsvsImageBarrier.dstQueueFamilyIndex i
   \<and> VkImageMemoryBarrier.image (pVkBarrier (thsvsGetVulkanImageMemoryBarrier i s d ivk)) =
       ThsvsImageBarrier.image i
   \<and> VkImageMemoryBarrier.subresourceRange (pVkBarrier (thsvsGetVulkanImageMemoryBarrier i s d ivk)) =
       ThsvsImageBarrier.subresourceRange i"
  by (simp add: thsvsGetVulkanBufferMemoryBarrier_eq thsvsGetVulkanImageMemoryBarrier_eq)

theorem C8_witness:
  "VkBufferMemoryBarrier.buffer (pVkBarrier (thsvsGetVulkanBufferMemoryBarrier
     \<lparr>ThsvsBufferBarrier.pPrevAccesses = [THSVS_ACCESS_TRANSFER_WRITE],
      pNextAccesses = [THSVS_ACCESS_INDEX_BUFFER],
      srcQueueFamilyIndex = 1, dstQueueFamilyIndex = 2, buffer = 0xABCD, offset = 256, size_field = 1024\<rparr>
     0 0
     \<lparr>VkBufferMemoryBarrier.sType = 0, pNext = 0, srcAccessMask = 0, dstAccessMask = 0,
      srcQueueFamilyIndex = 9, dstQueueFamilyIndex = 9, buffer = 9, offset = 9, size_field = 9\<rparr>))
     = 0xABCD"
  using C8_opaque_fields_passed_through
    [where b = "\<lparr>ThsvsBufferBarrier.pPrevAccesses = [THSVS_ACCESS_TRANSFER_WRITE],
        pNextAccesses = [THSVS_ACCESS_INDEX_BUFFER],
        srcQueueFamilyIndex = 1, dstQueueFamilyIndex = 2, buffer = 0xABCD, offset = 256, size_field = 1024\<rparr>"
      and s = 0 and d = 0
      and bvk = "\<lparr>VkBufferMemoryBarrier.sType = 0, pNext = 0, srcAccessMask = 0, dstAccessMask = 0,
        srcQueueFamilyIndex = 9, dstQueueFamilyIndex = 9, buffer = 9, offset = 9, size_field = 9\<rparr>"]
  by simp

text \<open>
  C9. Layouts are written only inside the loops. The loop over the next accesses leaves
  the old layout as it is and the loop over the previous accesses leaves the new layout as
  it is; so for an image barrier with no previous access the old layout of the output is
  the value the caller's storage held on entry, also when \<^verbatim>\<open>discardContents\<close> is \<^verbatim>\<open>VK_TRUE\<close>,
  and likewise the new layout with no next access.
\<close>

theorem C9_layouts_written_only_in_loops:
  "oldLayout (snd (image_next_loop th xs d vk)) = oldLayout vk
   \<and> newLayout (snd (image_prev_loop th xs s vk)) = newLayout vk
   \<and> (ThsvsImageBarrier.pPrevAccesses th = [] \<longrightarrow>
        oldLayout (pVkBarrier (thsvsGetVulkanImageMemoryBarrier th s d vk)) = oldLayout vk)
   \<and> (ThsvsImageBarrier.pNextAccesses th = [] \<longrightarrow>
        newLayout (pVkBarrier (thsvsGetVulkanImageMemoryBarrier th s d vk)) = newLayout vk)"
  by (simp add: thsvsGetVulkanImageMemoryBarrier_eq image_prev_loop_eq image_next_loop_eq)

theorem C9_witness:
  "oldLayout (pVkBarrier (thsvsGetVulkanImageMemoryBarrier
     \<lparr>ThsvsImageBarrier.pPrevAccesses = [], pNextAccesses = [],
      prevLayout = THSVS_IMAGE_LAYOUT_OPTIMAL, nextLayout = THSVS_IMAGE_LAYOUT_OPTIMAL,
      discardContents = 1, srcQueueFamilyIndex = 0, dstQueueFamilyIndex = 0, image = 0,
      subresourceRange = \<lparr>aspectMask = 1, baseMipLevel = 0, levelCount = 1,
                          baseArrayLayer = 0, layerCount = 1\<rparr>\<rparr>
     0 0
     \<lparr>VkImageMemoryBarrier.sType = 0, pNext = 0, srcAccessMask = 0, dstAccessMask = 0,
      oldLayout = 7, newLayout = 5, srcQueueFamilyIndex = 0, dstQueueFamilyIndex = 0, image = 0,
      subresourceRange = \<lparr>aspectMask = 0, baseMipLevel = 0, levelCount = 0,
                          baseArrayLayer = 0, layerCount = 0\<rparr>\<rparr>))
     = 7
   \<and> newLayout (pVkBarrier (thsvsGetVulkanImageMemoryBarrier
     \<lparr>ThsvsImageBarrier.pPrevAccesses = [], pNextAccesses = [],
      prevLayout = THSVS_IMAGE_LAYOUT_OPTIMAL, nextLayout = THSVS_IMAGE_LAYOUT_OPTIMAL,
      discardContents = 1, srcQueueFamilyIndex = 0, dstQueueFamilyIndex = 0, image = 0,
      subresourceRange = \<lparr>aspectMask = 1, baseMipLevel = 0, levelCount = 1,
                          baseArrayLayer = 0, layerCount = 1\<rparr>\<rparr>
     0 0
     \<lparr>VkImageMemoryBarrier.sType = 0, pNext = 0, srcAccessMask = 0, dstAccessMask = 0,
      oldLayout = 7, newLayout = 5, srcQueueFamilyIndex = 0, dstQueueFamilyIndex = 0, image = 0,
      subresourceRange = \<lparr>aspectMask = 0, baseMipLevel = 0, levelCount = 0,
                          baseArrayLayer = 0, layerCount = 0\<rparr>\<rparr>))
     = 5"
  using C9_layouts_written_only_in_loops
    [where th = "\<lparr>ThsvsImageBarrier.pPrevAccesses = [], pNextAccesses = [],
        prevLayout = THSVS_IMAGE_LAYOUT_OPTIMAL, nextLayout = THSVS_IMAGE_LAYOUT_OPTIMAL,
        discardContents = 1, srcQueueFamilyIndex = 0, dstQueueFamilyIndex = 0, image = 0,
        subresourceRange = \<lparr>aspectMask = 1, baseMipLevel = 0, levelCount = 1,
                            baseArrayLayer = 0, layerCount = 1\<rparr>\<rparr>"
      and s = 0 and d = 0
      and vk = "\<lparr>VkImageMemoryBarrier.sType = 0, pNext = 0, srcAccessMask = 0, dstAccessMask = 0,
        oldLayout = 7, newLayout = 5, srcQueueFamilyIndex = 0, dstQueueFamilyIndex = 0, image = 0,
        subresourceRange = \<lparr>aspectMask = 0, baseMipLevel = 0, levelCount = 0,
                            baseArrayLayer = 0, layerCount = 0\<rparr>\<rparr>"]
  by simp

text \<open>
  C10. Default stage bits of the command wrappers. For every input, the source stage
  mask that \<^verbatim>\<open>thsvsCmdPipelineBarrier\<close> and \<^verbatim>\<open>thsvsCmdWaitEvents\<close> pass to the Vulkan command
  contains \<^verbatim>\<open>VK_PIPELINE_STAGE_TOP_OF_PIPE_BIT\<close> and the destination stage mask contains
  \<^verbatim>\<open>VK_PIPELINE_STAGE_BOTTOM_OF_PIPE_BIT\<close>, whether the access lists are empty or not.
\<close>

theorem C10_default_stage_bits_always_passed:
  "VkCmdPipelineBarrier_call.srcStageMask (thsvsCmdPipelineBarrier cb g bs ibs mb bm im)
       AND VK_PIPELINE_STAGE_TOP_OF_PIPE_BIT = VK_PIPELINE_STAGE_TOP_OF_PIPE_BIT
   \<and> VkCmdPipelineBarrier_call.dstStageMask (thsvsCmdPipelineBarrier cb g bs ibs mb bm im)
       AND VK_PIPELINE_STAGE_BOTTOM_OF_PIPE_BIT = VK_PIPELINE_STAGE_BOTTOM_OF_PIPE_BIT
   \<and> VkCmdWaitEvents_call.srcStageMask (thsvsCmdWaitEvents cb es g bs ibs mb bm im)
       AND VK_PIPELINE_STAGE_TOP_OF_PIPE_BIT = VK_PIPELINE_STAGE_TOP_OF_PIPE_BIT
   \<and> VkCmdWaitEvents_call.dstStageMask (thsvsCmdWaitEvents cb es g bs ibs mb bm im)
       AND VK_PIPELINE_STAGE_BOTTOM_OF_PIPE_BIT = VK_PIPELINE_STAGE_BOTTOM_OF_PIPE_BIT"
proof -
  obtain s3 d3 ms bms ims where r: "resolve_barriers g bs ibs mb bm im = (s3, d3, ms, bms, ims)"
    by (metis prod_cases5)
  have "VK_PIPELINE_STAGE_TOP_OF_PIPE_BIT AND s3 = VK_PIPELINE_STAGE_TOP_OF_PIPE_BIT"
    and "VK_PIPELINE_STAGE_BOTTOM_OF_PIPE_BIT AND d3 = VK_PIPELINE_STAGE_BOTTOM_OF_PIPE_BIT"
    using resolve_barriers_defaults[of g bs ibs mb bm im] by (simp_all add: r)
  then have "s3 AND VK_PIPELINE_STAGE_TOP_OF_PIPE_BIT = VK_PIPELINE_STAGE_TOP_OF_PIPE_BIT"
    and "d3 AND VK_PIPELINE_STAGE_BOTTOM_OF_PIPE_BIT = VK_PIPELINE_STAGE_BOTTOM_OF_PIPE_BIT"
    by (simp_all add: and.commute)
  then show ?thesis
    by (simp add: thsvsCmdPipelineBarrier_def thsvsCmdWaitEvents_def r)
qed

theorem C10_witness:
  "(let call = thsvsCmdPipelineBarrier 0
       (Some \<lparr>ThsvsGlobalBarrier.pPrevAccesses = [THSVS_ACCESS_COMPUTE_SHADER_WRITE],
              pNextAccesses = [THSVS_ACCESS_COMPUTE_SHADER_READ_OTHER]\<rparr>) [] []
       \<lparr>VkMemoryBarrier.sType = 0, pNext = 0, srcAccessMask = 0, dstAccessMask = 0\<rparr>
       (\<lambda>i. \<lparr>VkBufferMemoryBarrier.sType = 0, pNext = 0, srcAccessMask = 0, dstAccessMask = 0,
          srcQueueFamilyIndex = 0, dstQueueFamilyIndex = 0, buffer = 0, offset = 0, size_field = 0\<rparr>)
       (\<lambda>i. \<lparr>VkImageMemoryBarrier.sType = 0, pNext = 0, srcAccessMask = 0, dstAccessMask = 0,
          oldLayout = 0, newLayout = 0, srcQueueFamilyIndex = 0, dstQueueFamilyIndex = 0, image = 0,
          subresourceRange = \<lparr>aspectMask = 0, baseMipLevel = 0, levelCount = 0,
                              baseArrayLayer = 0, layerCount = 0\<rparr>\<rparr>)
    in VkCmdPipelineBarrier_call.srcStageMask call AND 1 = 1
       \<and> VkCmdPipelineBarrier_call.dstStageMask call AND 0x2000 = 0x2000
       \<and> VkCmdPipelineBarrier_call.srcStageMask call = 0x801
       \<and> VkCmdPipelineBarrier_call.dstStageMask call = 0x2800)"
proof -
  let ?call = "thsvsCmdPipelineBarrier 0
       (Some \<lparr>ThsvsGlobalBarrier.pPrevAccesses = [THSVS_ACCESS_COMPUTE_SHADER_WRITE],
              pNextAccesses = [THSVS_ACCESS_COMPUTE_SHADER_READ_OTHER]\<rparr>) [] []
       \<lparr>VkMemoryBarrier.sType = 0, pNext = 0, srcAccessMask = 0, dstAccessMask = 0\<rparr>
       (\<lambda>i. \<lparr>VkBufferMemoryBarrier.sType = 0, pNext = 0, srcAccessMask = 0, dstAccessMask = 0,
          srcQueueFamilyIndex = 0, dstQueueFamilyIndex = 0, buffer = 0, offset = 0, size_field = 0\<rparr>)
       (\<lambda>i. \<lparr>VkImageMemoryBarrier.sType = 0, pNext = 0, srcAccessMask = 0, dstAccessMask = 0,
          oldLayout = 0, newLayout = 0, srcQueueFamilyIndex = 0, dstQueueFamilyIndex = 0, image = 0,
          subresourceRange = \<lparr>aspectMask = 0, baseMipLevel = 0, levelCount = 0,
                              baseArrayLayer = 0, layerCount = 0\<rparr>\<rparr>)"
  have bits: "VkCmdPipelineBarrier_call.srcStageMask ?call AND 1 = 1"
    "VkCmdPipelineBarrier_call.dstStageMask ?call AND 0x2000 = 0x2000"
    using C10_default_stage_bits_always_passed
    by (simp_all add: VK_PIPELINE_STAGE_TOP_OF_PIPE_BIT_def VK_PIPELINE_STAGE_BOTTOM_OF_PIPE_BIT_def)
  have vals: "VkCmdPipelineBarrier_call.srcStageMask ?call = 0x801"
    "VkCmdPipelineBarrier_call.dstStageMask ?call = 0x2800"
    by (simp_all add: thsvsCmdPipelineBarrier_def resolve_barriers_def
          thsvsGetVulkanMemoryBarrier_eq access_info_simps
          VK_PIPELINE_STAGE_TOP_OF_PIPE_BIT_def VK_PIPELINE_STAGE_BOTTOM_OF_PIPE_BIT_def
          VK_PIPELINE_STAGE_COMPUTE_SHADER_BIT_def)
  from bits vals show ?thesis
    unfolding Let_def by (intro conjI)
qed

end
